theory Spec2Isabelle
  imports Complex_Main
begin

section \<open>Data model (types.ts)\<close>

text \<open>
  A JavaScript number that carries milliseconds is modelled as the \<^typ>\<open>real\<close> it denotes;
  where the code multiplies, divides, adds or subtracts such numbers the result is rounded as
  a double is (section on JavaScript numbers below). Counters (\<open>attempts\<close>, \<open>count\<close>, HTTP
  status codes) are \<^typ>\<open>nat\<close>: the code only adds one to them, far below \<open>2^53\<close>.
  An optional field (\<open>field?: T\<close>, \<open>undefined\<close>) is an \<^typ>\<open>'a option\<close>.
\<close>

datatype Interval = I1m | I5m | I15m | I1h | I2h | I4h | I12h | I1w | I1M

definition INTERVALS :: "Interval list" where
  "INTERVALS = [I1m, I5m, I15m, I1h, I2h, I4h, I12h, I1w, I1M]"

fun intervalName :: "Interval \<Rightarrow> string" where
  "intervalName I1m = ''1m''"
| "intervalName I5m = ''5m''"
| "intervalName I15m = ''15m''"
| "intervalName I1h = ''1h''"
| "intervalName I2h = ''2h''"
| "intervalName I4h = ''4h''"
| "intervalName I12h = ''12h''"
| "intervalName I1w = ''1w''"
| "intervalName I1M = ''1M''"

datatype TaskStatus = Pending | Running | Retrying | Done | Error

record CandleRow =
  openTimeISO :: string
  openTimeMs :: real
  open' :: string
  high :: string
  low :: string
  close :: string
  volume :: string
  closeTimeISO :: string
  closeTimeMs :: real
  quoteVolume :: "string option"
  numTrades :: "real option"
  takerBuyBaseVol :: "string option"
  takerBuyQuoteVol :: "string option"

record IntervalTaskState =
  status :: TaskStatus
  attempts :: nat
  retryAtMs :: "real option"
  errorMessage :: "string option"
  count :: "nat option"

text \<open>
  A log line is \<open>`${new Date().toISOString()} ${message}`\<close>; the ISO rendering of an instant
  is a browser built-in, so a line is kept as the pair of the instant (in milliseconds) and
  the message, and the two ISO timestamps of a job are kept as instants as well.
\<close>

type_synonym logLine = "real \<times> string"

record JobState =
  id' :: string
  symbol :: string
  proxyBaseUrl :: string
  autoResume :: bool
  timezone :: "string option"
  createdAtISO :: real
  updatedAtISO :: real
  tasks :: "Interval \<Rightarrow> IntervalTaskState"
  data :: "Interval \<Rightarrow> CandleRow list option"
  logs :: "logLine list"

section \<open>Decimal rendering of a counter (template literals)\<close>

definition digitChar :: "nat \<Rightarrow> char" where
  "digitChar d = ''0123456789'' ! d"

fun showNat :: "nat \<Rightarrow> string" where
  "showNat n = (if n < 10 then [digitChar n] else showNat (n div 10) @ [digitChar (n mod 10)])"

declare showNat.simps [simp del]

section \<open>JavaScript numbers\<close>

text \<open>
  A finite JavaScript number is an IEEE 754 binary64 value: a multiple of \<open>2^(e - 52)\<close> of
  magnitude below \<open>2^(e + 1)\<close>, for an exponent \<open>e\<close> from \<open>-1022\<close> to \<open>1023\<close>. The result of
  \<open>*\<close>, \<open>/\<close>, \<open>+\<close> and \<open>-\<close> is the exact result rounded to the nearest such value, ties to
  the even multiple. \<open>binade x\<close> is \<open>2^e\<close> for the exponent of a positive \<open>x\<close> (found by
  doubling from 1 or halving from 1/2, and kept within the exponent range), \<open>ulp x\<close> the
  spacing of the doubles there. A rounded result of magnitude \<open>2^1024\<close> or more stands for
  the infinity of its sign; the code compares such a value with zero and nothing else.
\<close>

fun scaleUp :: "nat \<Rightarrow> real \<Rightarrow> real \<Rightarrow> real" where
  "scaleUp fuel p x = (if fuel = 0 \<or> x < 2 * p then p else scaleUp (fuel - 1) (2 * p) x)"

declare scaleUp.simps [simp del]

fun scaleDown :: "nat \<Rightarrow> real \<Rightarrow> real \<Rightarrow> real" where
  "scaleDown fuel p x = (if fuel = 0 \<or> p \<le> x then p else scaleDown (fuel - 1) (p / 2) x)"

declare scaleDown.simps [simp del]

definition binade :: "real \<Rightarrow> real" where
  "binade x = (if 1 \<le> x then scaleUp 1023 1 x else scaleDown 1021 (1 / 2) x)"

definition ulp :: "real \<Rightarrow> real" where
  "ulp x = binade x / 2 ^ 52"

definition roundEven :: "real \<Rightarrow> int" where
  "roundEven n =
     (let f = \<lfloor>n\<rfloor>; r = n - of_int f
      in if r < 1 / 2 then f else if 1 / 2 < r then f + 1 else if even f then f else f + 1)"

definition roundDouble :: "real \<Rightarrow> real" where
  "roundDouble x =
     (if x = 0 then 0
      else if 0 < x then of_int (roundEven (x / ulp x)) * ulp x
      else - (of_int (roundEven (- x / ulp (- x))) * ulp (- x)))"

definition isDouble :: "real \<Rightarrow> bool" where
  "isDouble x = (roundDouble x = x)"

definition jsMul :: "real \<Rightarrow> real \<Rightarrow> real" where
  "jsMul a b = roundDouble (a * b)"

definition jsDiv :: "real \<Rightarrow> real \<Rightarrow> real" where
  "jsDiv a b = roundDouble (a / b)"

definition jsAdd :: "real \<Rightarrow> real \<Rightarrow> real" where
  "jsAdd a b = roundDouble (a + b)"

definition jsSub :: "real \<Rightarrow> real \<Rightarrow> real" where
  "jsSub a b = roundDouble (a - b)"

section \<open>Backoff policy (taskRunner.ts, computeRetryDelayMs)\<close>

definition MAX_LOGS :: nat where
  "MAX_LOGS = 50"

definition MAX_BACKOFF_MS :: real where
  "MAX_BACKOFF_MS = 60000"

text \<open>
  \<open>rnd\<close> is the value of the one call of \<open>Math.random()\<close>, a double in \<open>[0, 1)\<close>; the jitter
  is the floor of the double \<open>rnd * 1000\<close>. The test \<open>retryAfterMs && retryAfterMs > 0\<close> holds
  when the hint is defined and positive (\<open>undefined\<close> and \<open>0\<close> are falsy). The power, the
  product \<open>1000 * 2 ** ..\<close> and the sum with the jitter are integers below \<open>2^53\<close>, exact as
  doubles; \<open>Math.min\<close> does not round.
\<close>

definition computeRetryDelayMs :: "nat \<Rightarrow> real option \<Rightarrow> real \<Rightarrow> real" where
  "computeRetryDelayMs attempts' retryAfterMs' rnd =
     (if retryAfterMs' \<noteq> None \<and> the retryAfterMs' \<noteq> 0 \<and> the retryAfterMs' > 0
      then min (the retryAfterMs') MAX_BACKOFF_MS
      else (let exponential = min MAX_BACKOFF_MS (1000 * 2 ^ (min attempts' 8));
                jitter = of_int \<lfloor>jsMul rnd 1000\<rfloor>
            in min MAX_BACKOFF_MS (exponential + jitter)))"

text \<open>A draw of \<open>Math.random()\<close> is admissible when it is a double in \<open>[0, 1)\<close>.\<close>

definition admissibleDraw :: "real \<Rightarrow> bool" where
  "admissibleDraw rnd = (0 \<le> rnd \<and> rnd < 1 \<and> isDouble rnd)"

section \<open>Remote fetcher and error classifier (binance.ts)\<close>

record BinanceApiError =
  message :: string
  httpStatus :: "nat option"
  retryAfterMs :: "real option"
  retryable :: bool

text \<open>
  What a \<open>catch\<close> clause can receive: a \<open>BinanceApiError\<close>, another \<open>Error\<close> with its
  message (\<open>TypeError\<close>, \<open>RangeError\<close>, \<open>SyntaxError\<close>, a storage \<open>DOMException\<close>), or a
  value that is no \<open>Error\<close> at all.
\<close>

datatype thrown = ApiError BinanceApiError | JsError string | NotAnError

text \<open>How a promise of the Fetch API settles; \<open>AbortError\<close> is what the timeout's
  \<open>controller.abort()\<close> produces.\<close>

datatype rejection = AbortError | ErrorWith string | NonErrorValue

datatype 'a settled = Resolved 'a | Rejected rejection

datatype json =
    JNull
  | JBool bool
  | JNumber real
  | JString string
  | JArray "json list"
  | JObject "(string \<times> json) list"

record Response =
  statusCode :: nat
  headers :: "string \<Rightarrow> string option"
  bodyText :: "string settled"
  bodyJson :: "json settled"

definition ok :: "Response \<Rightarrow> bool" where
  "ok response = (200 \<le> statusCode response \<and> statusCode response \<le> 299)"

text \<open>
  The built-ins the fetcher calls, taken as parameters:
  \<^item> \<open>Number\<close> on a header string, \<open>None\<close> when the result is not finite
    (\<open>Number.isFinite\<close> fails);
  \<^item> \<open>Date.parse\<close>, \<open>None\<close> when the result is \<open>NaN\<close>;
  \<^item> \<open>Date.now()\<close>;
  \<^item> the field conversions of \<open>toCandleRow\<close> on a tuple of at least seven elements
    (\<open>Number\<close>, \<open>String\<close>, \<open>new Date(..).toISOString()\<close>): the record built, or the message
    of the \<open>RangeError\<close> that \<open>toISOString\<close> raises on an invalid time value.
\<close>

record Builtins =
  jsNumber :: "string \<Rightarrow> real option"
  dateParse :: "string \<Rightarrow> real option"
  dateNow :: real
  rowFields :: "json list \<Rightarrow> string + CandleRow"

text \<open>\<open>a ?? b\<close> on optional values.\<close>

definition orElse :: "'a option \<Rightarrow> 'a option \<Rightarrow> 'a option" where
  "orElse a b = (case a of Some v \<Rightarrow> Some v | None \<Rightarrow> b)"

definition parseRetryAfterMs :: "Builtins \<Rightarrow> (string \<Rightarrow> string option) \<Rightarrow> real option" where
  "parseRetryAfterMs B hdrs =
     (case orElse (hdrs ''retry-after'') (orElse (hdrs ''x-retry-after'') (hdrs ''retry-after-ms'')) of
        None \<Rightarrow> None
      | Some retryAfter \<Rightarrow>
          if retryAfter = [] then None
          else (case jsNumber B retryAfter of
                  Some numeric \<Rightarrow> Some (if numeric > 1000 then numeric else jsMul numeric 1000)
                | None \<Rightarrow>
                    (case dateParse B retryAfter of
                       Some dateMs \<Rightarrow> Some (max 0 (jsSub dateMs (dateNow B)))
                     | None \<Rightarrow> None)))"

definition toCandleRow :: "Builtins \<Rightarrow> json \<Rightarrow> thrown + CandleRow" where
  "toCandleRow B raw =
     (case raw of
        JArray items \<Rightarrow>
          if length items < 7
          then Inl (ApiError \<lparr>message = ''Invalid candle payload from Binance'', httpStatus = None,
                              retryAfterMs = None, retryable = True\<rparr>)
          else (case rowFields B items of Inl m \<Rightarrow> Inl (JsError m) | Inr row \<Rightarrow> Inr row)
      | _ \<Rightarrow> Inl (ApiError \<lparr>message = ''Invalid candle payload from Binance'', httpStatus = None,
                            retryAfterMs = None, retryable = True\<rparr>))"

text \<open>\<open>json.map((item) => toCandleRow(item))\<close>: left to right, the first throw ends the map.\<close>

fun mapRows :: "Builtins \<Rightarrow> json list \<Rightarrow> thrown + CandleRow list" where
  "mapRows B [] = Inr []"
| "mapRows B (item # rest) =
     (case toCandleRow B item of
        Inl e \<Rightarrow> Inl e
      | Inr row \<Rightarrow> (case mapRows B rest of Inl e \<Rightarrow> Inl e | Inr rows \<Rightarrow> Inr (row # rows)))"

text \<open>The \<open>catch\<close> clause of \<open>fetchKlines\<close>, on what the \<open>try\<close> block threw.\<close>

definition onCaught :: "thrown \<Rightarrow> BinanceApiError" where
  "onCaught e =
     (case e of
        ApiError err \<Rightarrow> err
      | JsError m \<Rightarrow> \<lparr>message = m, httpStatus = None, retryAfterMs = None, retryable = True\<rparr>
      | NotAnError \<Rightarrow> \<lparr>message = ''Network error'', httpStatus = None, retryAfterMs = None,
                       retryable = True\<rparr>)"

definition onRejected :: "rejection \<Rightarrow> BinanceApiError" where
  "onRejected r =
     (case r of
        AbortError \<Rightarrow> \<lparr>message = ''Request timeout'', httpStatus = None, retryAfterMs = None,
                       retryable = True\<rparr>
      | ErrorWith m \<Rightarrow> onCaught (JsError m)
      | NonErrorValue \<Rightarrow> onCaught NotAnError)"

text \<open>
  One call of \<open>fetchKlines\<close>, as a function of what the network did. \<open>InvalidUrl m\<close>: the
  \<open>new URL(..)\<close> before the \<open>try\<close> block threw a \<open>TypeError\<close> with message \<open>m\<close>;
  \<open>Fetched s\<close>: how the promise of \<open>fetch\<close> settled.
\<close>

datatype fetchOutcome = InvalidUrl string | Fetched "Response settled"

definition fetchKlines :: "Builtins \<Rightarrow> fetchOutcome \<Rightarrow> thrown + CandleRow list" where
  "fetchKlines B outcome =
     (case outcome of
        InvalidUrl m \<Rightarrow> Inl (JsError m)
      | Fetched (Rejected r) \<Rightarrow> Inl (ApiError (onRejected r))
      | Fetched (Resolved response) \<Rightarrow>
          if \<not> ok response
          then (let retryAfterMs' = parseRetryAfterMs B (headers response);
                    retryable' = (statusCode response = 418 \<or> statusCode response = 429
                                  \<or> statusCode response \<ge> 500);
                    detail = (case bodyText response of Resolved t \<Rightarrow> t | Rejected _ \<Rightarrow> [])
                in Inl (ApiError
                     \<lparr>message = ''HTTP '' @ showNat (statusCode response)
                                  @ (if detail \<noteq> [] then '': '' @ take 250 detail else []),
                      httpStatus = Some (statusCode response),
                      retryAfterMs = retryAfterMs',
                      retryable = retryable'\<rparr>))
          else (case bodyJson response of
                  Rejected r \<Rightarrow> Inl (ApiError (onRejected r))
                | Resolved (JArray items) \<Rightarrow>
                    (case mapRows B items of
                       Inl e \<Rightarrow> Inl (ApiError (onCaught e))
                     | Inr rows \<Rightarrow> Inr rows)
                | Resolved _ \<Rightarrow>
                    Inl (ApiError \<lparr>message = ''Unexpected Binance response format'',
                                   httpStatus = None, retryAfterMs = None, retryable = True\<rparr>)))"

text \<open>\<open>isRetryable\<close> of the runner: an object with a truthy \<open>retryable\<close> property.\<close>

definition isRetryable :: "thrown \<Rightarrow> bool" where
  "isRetryable e = (case e of ApiError err \<Rightarrow> retryable err | _ \<Rightarrow> False)"

section \<open>Durable store (storage.ts)\<close>

text \<open>
  The world the runner acts on: its two private fields; the calls it has made to the observer
  callback \<open>onStateChange\<close> (oldest first, what a registered callback receives) and to
  \<open>fetchKlines\<close> (symbol, series, proxy); how often \<open>run\<close> has passed its guard and entered
  its loop; the two storage tiers with the document each holds under its fixed key; and the
  clock. Every request to a tier succeeds or fails on its own: \<open>idbOutcome n = Some m\<close> makes
  the \<open>n\<close>-th request to IndexedDB (counted from 0) reject with message \<open>m\<close> (a request
  error, or a database whose open failed), and \<open>localOutcome n = Some m\<close> makes the \<open>n\<close>-th
  access to \<open>localStorage\<close> throw; \<open>idbRequests\<close> and \<open>localRequests\<close> count the requests
  made so far. \<open>hasIndexedDB\<close> is \<open>"indexedDB" in window\<close> when the module is loaded.
\<close>

record World =
  state :: "JobState option"
  active :: bool
  observed :: "JobState option list"
  fetchCalls :: "(string \<times> Interval \<times> string) list"
  loopsEntered :: nat
  hasIndexedDB :: bool
  idbOutcome :: "nat \<Rightarrow> string option"
  idbRequests :: nat
  localOutcome :: "nat \<Rightarrow> string option"
  localRequests :: nat
  idbDoc :: "JobState option"
  localDoc :: "JobState option"
  nowMs :: real

datatype 'a result = Ok 'a | Throw thrown

text \<open>\<open>LocalStorageStore\<close>: \<open>getItem\<close>, \<open>setItem\<close> and \<open>removeItem\<close> under the fixed key. A
  value that \<open>JSON.parse\<close> refuses reads as no document.\<close>

definition localStoreGet :: "World \<Rightarrow> JobState option result \<times> World" where
  "localStoreGet w =
     (case localOutcome w (localRequests w) of
        Some m \<Rightarrow> (Throw (JsError m), w\<lparr>localRequests := localRequests w + 1\<rparr>)
      | None \<Rightarrow> (Ok (localDoc w), w\<lparr>localRequests := localRequests w + 1\<rparr>))"

definition localStoreSet :: "JobState \<Rightarrow> World \<Rightarrow> unit result \<times> World" where
  "localStoreSet v w =
     (case localOutcome w (localRequests w) of
        Some m \<Rightarrow> (Throw (JsError m), w\<lparr>localRequests := localRequests w + 1\<rparr>)
      | None \<Rightarrow> (Ok (), w\<lparr>localRequests := localRequests w + 1, localDoc := Some v\<rparr>))"

definition localStoreClear :: "World \<Rightarrow> unit result \<times> World" where
  "localStoreClear w =
     (case localOutcome w (localRequests w) of
        Some m \<Rightarrow> (Throw (JsError m), w\<lparr>localRequests := localRequests w + 1\<rparr>)
      | None \<Rightarrow> (Ok (), w\<lparr>localRequests := localRequests w + 1, localDoc := None\<rparr>))"

text \<open>\<open>IndexedDbStore\<close>: the \<open>get\<close>, \<open>put\<close> and \<open>delete\<close> requests under the fixed key.\<close>

definition idbGet :: "World \<Rightarrow> JobState option result \<times> World" where
  "idbGet w =
     (case idbOutcome w (idbRequests w) of
        Some m \<Rightarrow> (Throw (JsError m), w\<lparr>idbRequests := idbRequests w + 1\<rparr>)
      | None \<Rightarrow> (Ok (idbDoc w), w\<lparr>idbRequests := idbRequests w + 1\<rparr>))"

definition idbSet :: "JobState \<Rightarrow> World \<Rightarrow> unit result \<times> World" where
  "idbSet v w =
     (case idbOutcome w (idbRequests w) of
        Some m \<Rightarrow> (Throw (JsError m), w\<lparr>idbRequests := idbRequests w + 1\<rparr>)
      | None \<Rightarrow> (Ok (), w\<lparr>idbRequests := idbRequests w + 1, idbDoc := Some v\<rparr>))"

definition idbClear :: "World \<Rightarrow> unit result \<times> World" where
  "idbClear w =
     (case idbOutcome w (idbRequests w) of
        Some m \<Rightarrow> (Throw (JsError m), w\<lparr>idbRequests := idbRequests w + 1\<rparr>)
      | None \<Rightarrow> (Ok (), w\<lparr>idbRequests := idbRequests w + 1, idbDoc := None\<rparr>))"

text \<open>The store that \<open>chooseStorage\<close> returns: IndexedDB first, \<open>localStorage\<close> in the
  \<open>catch\<close>; \<open>localStorage\<close> alone without IndexedDB.\<close>

definition storageGet :: "World \<Rightarrow> JobState option result \<times> World" where
  "storageGet w =
     (if hasIndexedDB w
      then (case idbGet w of (Ok doc, w') \<Rightarrow> (Ok doc, w') | (Throw _, w') \<Rightarrow> localStoreGet w')
      else localStoreGet w)"

definition storageSet :: "JobState \<Rightarrow> World \<Rightarrow> unit result \<times> World" where
  "storageSet v w =
     (if hasIndexedDB w
      then (case idbSet v w of (Ok _, w') \<Rightarrow> (Ok (), w') | (Throw _, w') \<Rightarrow> localStoreSet v w')
      else localStoreSet v w)"

definition storageClear :: "World \<Rightarrow> unit result \<times> World" where
  "storageClear w =
     (if hasIndexedDB w
      then (case idbClear w of (Ok _, w') \<Rightarrow> (Ok (), w') | (Throw _, w') \<Rightarrow> localStoreClear w')
      else localStoreClear w)"

section \<open>Job orchestrator (taskRunner.ts)\<close>

definition initialTaskState :: "Interval \<Rightarrow> IntervalTaskState" where
  "initialTaskState = (\<lambda>interval. \<lparr>status = Pending, attempts = 0, retryAtMs = None,
                                      errorMessage = None, count = None\<rparr>)"

text \<open>\<open>withLog\<close> at the instant \<open>now\<close>; \<open>.slice(-MAX_LOGS)\<close> keeps the last fifty lines.\<close>

definition withLog :: "real \<Rightarrow> JobState \<Rightarrow> string \<Rightarrow> JobState" where
  "withLog now st msg =
     (let all = logs st @ [(now, msg)]
      in st\<lparr>logs := drop (length all - MAX_LOGS) all, updatedAtISO := now\<rparr>)"

definition isFinishedStatus :: "TaskStatus \<Rightarrow> bool" where
  "isFinishedStatus s = (s = Done \<or> s = Error)"

text \<open>\<open>delay(ms)\<close>: the timer fires once \<open>ms\<close> milliseconds have passed (at once when
  \<open>ms\<close> is not positive).\<close>

definition delay :: "real \<Rightarrow> World \<Rightarrow> World" where
  "delay ms w = w\<lparr>nowMs := nowMs w + max 0 ms\<rparr>"

definition getState :: "World \<Rightarrow> JobState option" where
  "getState w = state w"

definition persistAndEmit :: "JobState \<Rightarrow> World \<Rightarrow> unit result \<times> World" where
  "persistAndEmit st w =
     (case storageSet st (w\<lparr>state := Some st\<rparr>) of
        (Throw e, w') \<Rightarrow> (Throw e, w')
      | (Ok _, w') \<Rightarrow> (Ok (), w'\<lparr>observed := observed w' @ [Some st]\<rparr>))"

definition setState :: "(JobState \<Rightarrow> JobState) \<Rightarrow> World \<Rightarrow> unit result \<times> World" where
  "setState mutator w =
     (case state w of
        None \<Rightarrow> (Ok (), w)
      | Some previous \<Rightarrow> persistAndEmit (mutator previous) w)"

text \<open>\<open>DEFAULT_TIMEZONE\<close> is imported from a module that is not part of the sources at hand;
  it is the parameter \<open>defaultTz\<close>. \<open>a || b\<close> on a string takes \<open>b\<close> when \<open>a\<close> is
  \<open>undefined\<close> or empty.\<close>

definition orDefault :: "string option \<Rightarrow> string \<Rightarrow> string" where
  "orDefault a b = (case a of None \<Rightarrow> b | Some t \<Rightarrow> if t = [] then b else t)"

definition loadSavedState :: "string \<Rightarrow> World \<Rightarrow> JobState option result \<times> World" where
  "loadSavedState defaultTz w =
     (case storageGet w of
        (Throw e, w') \<Rightarrow> (Throw e, w')
      | (Ok None, w') \<Rightarrow> (Ok None, w'\<lparr>state := None\<rparr>)
      | (Ok (Some saved), w') \<Rightarrow>
          (let withDefaults = saved\<lparr>timezone := Some (orDefault (timezone saved) defaultTz)\<rparr>
           in (Ok (Some withDefaults),
               w'\<lparr>state := Some withDefaults, observed := observed w' @ [Some withDefaults]\<rparr>)))"

text \<open>The mutators handed to \<open>setState\<close>, each at the instant \<open>now\<close> of its call.\<close>

definition markRunning :: "Interval \<Rightarrow> real \<Rightarrow> JobState \<Rightarrow> JobState" where
  "markRunning interval now prev =
     prev\<lparr>tasks := (tasks prev)(interval := (tasks prev interval)
              \<lparr>status := Running, retryAtMs := None, errorMessage := None\<rparr>),
          updatedAtISO := now\<rparr>"

definition markDone :: "Interval \<Rightarrow> CandleRow list \<Rightarrow> real \<Rightarrow> JobState \<Rightarrow> JobState" where
  "markDone interval candles now prev =
     withLog now
       (prev\<lparr>data := (data prev)(interval \<mapsto> candles),
             tasks := (tasks prev)(interval := (tasks prev interval)
               \<lparr>status := Done, count := Some (length candles), retryAtMs := None,
                errorMessage := (if length candles < 1000
                                 then Some ''Returned fewer than 1000 candles'' else None)\<rparr>)\<rparr>)
       (intervalName interval @ '' completed with '' @ showNat (length candles) @ '' candles'')"

definition markRetrying :: "Interval \<Rightarrow> nat \<Rightarrow> real \<Rightarrow> nat \<Rightarrow> string \<Rightarrow> real \<Rightarrow> JobState \<Rightarrow> JobState" where
  "markRetrying interval attempts' retryAtMs' waitSec errorMessage' now prev =
     withLog now
       (prev\<lparr>tasks := (tasks prev)(interval := (tasks prev interval)
               \<lparr>status := Retrying, attempts := attempts', retryAtMs := Some retryAtMs',
                errorMessage := Some errorMessage'\<rparr>)\<rparr>)
       (intervalName interval @ '' transient error. Waiting '' @ showNat waitSec
          @ ''s before retry: '' @ errorMessage')"

definition markError :: "Interval \<Rightarrow> string \<Rightarrow> real \<Rightarrow> JobState \<Rightarrow> JobState" where
  "markError interval message' now prev =
     withLog now
       (prev\<lparr>tasks := (tasks prev)(interval := (tasks prev interval)
               \<lparr>status := Error, errorMessage := Some message'\<rparr>)\<rparr>)
       (intervalName interval @ '' failed permanently: '' @ message')"

definition onIntervalSuccess :: "Interval \<Rightarrow> CandleRow list \<Rightarrow> World \<Rightarrow> unit result \<times> World" where
  "onIntervalSuccess interval candles w = setState (markDone interval candles (nowMs w)) w"

definition onIntervalRetry :: "Interval \<Rightarrow> nat \<Rightarrow> real \<Rightarrow> string \<Rightarrow> World \<Rightarrow> unit result \<times> World" where
  "onIntervalRetry interval attempts' waitMs errorMessage' w =
     (let retryAtMs' = jsAdd (nowMs w) waitMs;
          waitSec = nat \<lceil>jsDiv waitMs 1000\<rceil>
      in setState (markRetrying interval attempts' retryAtMs' waitSec errorMessage' (nowMs w)) w)"

text \<open>
  One answer of the network to the runner: how the promise of \<open>fetchKlines\<close> settled (its
  batch, or what it threw), and the draw of \<open>Math.random()\<close> that the backoff takes if it
  comes to that.
\<close>

record attempt =
  fetched :: "thrown + CandleRow list"
  randomDraw :: real

text \<open>How a call of an asynchronous method ends: it returns, it throws (the promise
  rejects), or it is still waiting for a fetch that the script of answers does not hold.\<close>

datatype completion = Returned | Threw thrown | Awaiting

text \<open>Where one pass of the loop of \<open>executeInterval\<close> stands once the fetch has settled
  and its snapshot is written: at \<open>return\<close>, at \<open>await delay(waitMs)\<close> before \<open>continue\<close>, or
  at an exception that leaves the method.\<close>

datatype flow = Return | Sleep real | Raise thrown

definition nullDeref :: string where
  "nullDeref = ''Cannot read properties of null''"

definition thrownMessage :: "thrown \<Rightarrow> string" where
  "thrownMessage e =
     (case e of ApiError err \<Rightarrow> message err | JsError m \<Rightarrow> m | NotAnError \<Rightarrow> ''Unknown error'')"

text \<open>The \<open>catch (error)\<close> clause of the loop body.\<close>

definition onFetchError :: "Interval \<Rightarrow> thrown \<Rightarrow> real \<Rightarrow> World \<Rightarrow> flow \<times> World" where
  "onFetchError interval error draw w =
     (if isRetryable error
      then (case state w of
              None \<Rightarrow> (Raise (JsError nullDeref), w)
            | Some st \<Rightarrow>
                (let attempts' = attempts (tasks st interval) + 1;
                     hint = (case error of ApiError err \<Rightarrow> retryAfterMs err | _ \<Rightarrow> None);
                     waitMs = computeRetryDelayMs attempts' hint draw
                 in (case onIntervalRetry interval attempts' waitMs (thrownMessage error) w of
                       (Throw e, w') \<Rightarrow> (Raise e, w')
                     | (Ok _, w') \<Rightarrow> (Sleep waitMs, w'))))
      else (case setState (markError interval (thrownMessage error) (nowMs w)) w of
              (Throw e, w') \<Rightarrow> (Raise e, w')
            | (Ok _, w') \<Rightarrow> (Return, w')))"

text \<open>The \<open>try\<close> block once the promise of \<open>fetchKlines\<close> has settled, with its \<open>catch\<close>.\<close>

definition afterFetch :: "Interval \<Rightarrow> attempt \<Rightarrow> World \<Rightarrow> flow \<times> World" where
  "afterFetch interval a w =
     (case fetched a of
        Inr candles \<Rightarrow>
          (case onIntervalSuccess interval candles w of
             (Throw e, w') \<Rightarrow> onFetchError interval e (randomDraw a) w'
           | (Ok _, w') \<Rightarrow> (Return, w'))
      | Inl error \<Rightarrow> onFetchError interval error (randomDraw a) w)"

text \<open>The head of the loop body: the wait for a scheduled retry, then the transition to
  \<open>running\<close>.\<close>

definition beginAttempt :: "Interval \<Rightarrow> IntervalTaskState \<Rightarrow> World \<Rightarrow> unit result \<times> World" where
  "beginAttempt interval task w =
     (let w1 = (if status task = Retrying \<and> retryAtMs task \<noteq> None \<and> the (retryAtMs task) \<noteq> 0
                   \<and> the (retryAtMs task) > nowMs w
                then delay (jsSub (the (retryAtMs task)) (nowMs w)) w else w)
      in setState (markRunning interval (nowMs w1)) w1)"

text \<open>
  \<open>executeInterval\<close> against a script of answers; it returns what is left of the script.
  With the script used up and a fetch under way the result is \<open>Awaiting\<close>. The method is
  taken from its call to that point with no other operation of the runner in between; when
  another operation has come in while the fetch was under way, what the pass does once the
  fetch settles is \<open>afterFetch\<close> on the world of that moment.
\<close>

fun executeInterval :: "Interval \<Rightarrow> attempt list \<Rightarrow> World \<Rightarrow> completion \<times> attempt list \<times> World" where
  "executeInterval interval script w =
     (case state w of
        None \<Rightarrow> (Returned, script, w)
      | Some st \<Rightarrow>
          if status (tasks st interval) = Done \<or> status (tasks st interval) = Error
          then (Returned, script, w)
          else (case beginAttempt interval (tasks st interval) w of
                  (Throw e, w1) \<Rightarrow> (Threw e, script, w1)
                | (Ok _, w1) \<Rightarrow>
                    (case state w1 of
                       None \<Rightarrow>
                         (case onFetchError interval (JsError nullDeref) 0 w1 of
                            (Raise e, w2) \<Rightarrow> (Threw e, script, w2)
                          | (_, w2) \<Rightarrow> (Returned, script, w2))
                     | Some st1 \<Rightarrow>
                         (let w2 = w1\<lparr>fetchCalls := fetchCalls w1
                                        @ [(symbol st1, interval, proxyBaseUrl st1)]\<rparr>
                          in (case script of
                                [] \<Rightarrow> (Awaiting, [], w2)
                              | a # rest \<Rightarrow>
                                  (case afterFetch interval a w2 of
                                     (Return, w3) \<Rightarrow> (Returned, rest, w3)
                                   | (Raise e, w3) \<Rightarrow> (Threw e, rest, w3)
                                   | (Sleep waitMs, w3) \<Rightarrow>
                                       executeInterval interval rest (delay waitMs w3)))))))"

declare executeInterval.simps [simp del]

text \<open>The \<open>for\<close> loop of \<open>run\<close> over the series still to visit.\<close>

fun runLoop :: "Interval list \<Rightarrow> attempt list \<Rightarrow> World \<Rightarrow> completion \<times> attempt list \<times> World" where
  "runLoop [] script w = (Returned, script, w)"
| "runLoop (interval # later) script w =
     (case state w of
        None \<Rightarrow> (Returned, script, w)
      | Some st \<Rightarrow>
          if status (tasks st interval) = Done then runLoop later script w
          else if status (tasks st interval) = Error then runLoop later script w
          else (case executeInterval interval script w of
                  (Returned, script', w') \<Rightarrow> runLoop later script' w'
                | (c, script', w') \<Rightarrow> (c, script', w')))"

text \<open>\<open>run\<close>; the \<open>finally\<close> clause resets \<open>active\<close> when the loop has ended, by return or by
  exception.\<close>

definition run :: "attempt list \<Rightarrow> World \<Rightarrow> completion \<times> attempt list \<times> World" where
  "run script w =
     (if state w = None \<or> active w then (Returned, script, w)
      else (case runLoop INTERVALS script
                   (w\<lparr>active := True, loopsEntered := loopsEntered w + 1\<rparr>) of
              (Awaiting, script', w') \<Rightarrow> (Awaiting, script', w')
            | (c, script', w') \<Rightarrow> (c, script', w'\<lparr>active := False\<rparr>)))"

text \<open>\<open>startNewJob\<close>; \<open>uuid\<close> is the value of \<open>crypto.randomUUID()\<close>.\<close>

definition startNewJob ::
  "string \<Rightarrow> string \<Rightarrow> string \<Rightarrow> string \<Rightarrow> bool \<Rightarrow> string option \<Rightarrow> attempt list \<Rightarrow> World
     \<Rightarrow> completion \<times> attempt list \<times> World" where
  "startNewJob defaultTz uuid symbol' proxyBaseUrl' autoResume' timezone' script w =
     (let st = \<lparr>id' = uuid, symbol = symbol', proxyBaseUrl = proxyBaseUrl',
                autoResume = autoResume', timezone = Some (orDefault timezone' defaultTz),
                createdAtISO = nowMs w, updatedAtISO = nowMs w, tasks = initialTaskState,
                data = Map.empty, logs = []\<rparr>
      in (case persistAndEmit (withLog (nowMs w) st (''Started job for '' @ symbol')) w of
            (Throw e, w') \<Rightarrow> (Threw e, script, w')
          | (Ok _, w') \<Rightarrow> run script w'))"

definition updateSettings ::
  "string option \<Rightarrow> bool option \<Rightarrow> string option \<Rightarrow> World \<Rightarrow> unit result \<times> World" where
  "updateSettings proxyBaseUrl' autoResume' timezone' w =
     (if state w = None then (Ok (), w)
      else setState (\<lambda>prev. prev\<lparr>proxyBaseUrl := (case proxyBaseUrl' of Some v \<Rightarrow> v
                                                       | None \<Rightarrow> proxyBaseUrl prev),
                                 autoResume := (case autoResume' of Some v \<Rightarrow> v
                                                     | None \<Rightarrow> autoResume prev),
                                 timezone := orElse timezone' (timezone prev),
                                 updatedAtISO := nowMs w\<rparr>) w)"

definition clearSavedState :: "World \<Rightarrow> unit result \<times> World" where
  "clearSavedState w =
     (case storageClear (w\<lparr>active := False, state := None\<rparr>) of
        (Throw e, w') \<Rightarrow> (Throw e, w')
      | (Ok _, w') \<Rightarrow> (Ok (), w'\<lparr>observed := observed w' @ [None]\<rparr>))"

definition resumeIfNeeded :: "string \<Rightarrow> attempt list \<Rightarrow> World \<Rightarrow> completion \<times> attempt list \<times> World" where
  "resumeIfNeeded defaultTz script w =
     (case loadSavedState defaultTz w of
        (Throw e, w') \<Rightarrow> (Threw e, script, w')
      | (Ok None, w') \<Rightarrow> (Returned, script, w')
      | (Ok (Some saved), w') \<Rightarrow>
          (let unfinished = list_ex (\<lambda>interval. \<not> isFinishedStatus (status (tasks saved interval)))
                              INTERVALS
           in if autoResume saved \<and> unfinished
              then (case setState (\<lambda>prev. withLog (nowMs w') prev ''Resuming unfinished job'') w' of
                      (Throw e, w'') \<Rightarrow> (Threw e, script, w'')
                    | (Ok _, w'') \<Rightarrow> run script w'')
              else (Returned, script, w')))"

section \<open>Predicates and worked cases used in the statements\<close>

text \<open>The two predicates the classification is stated with: a status the classifier
  retries, and a tuple of the shape \<open>toCandleRow\<close> accepts.\<close>

definition retryableStatus :: "nat \<Rightarrow> bool" where
  "retryableStatus s = (s = 429 \<or> s = 418 \<or> s \<ge> 500)"

definition wellShaped :: "json \<Rightarrow> bool" where
  "wellShaped item = (case item of JArray cells \<Rightarrow> 7 \<le> length cells | _ \<Rightarrow> False)"

text \<open>Sample built-ins and responses for the worked cases; \<open>Number("")\<close> is 0.\<close>

definition noBuiltins :: Builtins where
  "noBuiltins = \<lparr>jsNumber = (\<lambda>s. if s = ''5'' then Some 5 else if s = ''5000'' then Some 5000
                                  else if s = [] then Some 0 else None),
                 dateParse = (\<lambda>s. if s = ''Wed, 21 Oct 2015 07:28:00 GMT'' then Some 1445412480000 else None),
                 dateNow = 1445412470000,
                 rowFields = (\<lambda>cells. Inl ''Invalid time value'')\<rparr>"

definition sampleResponse :: "nat \<Rightarrow> string option \<Rightarrow> string \<Rightarrow> json \<Rightarrow> Response" where
  "sampleResponse code hint body j =
     \<lparr>statusCode = code, headers = (\<lambda>name. if name = ''retry-after'' then hint else None),
      bodyText = Resolved body, bodyJson = Resolved j\<rparr>"

text \<open>The next write is taken by a tier: IndexedDB answers the next request, or
  \<open>localStorage\<close> does; and the next request goes to IndexedDB and is answered.\<close>

definition writeTaken :: "World \<Rightarrow> bool" where
  "writeTaken w =
     (if hasIndexedDB w \<and> idbOutcome w (idbRequests w) = None then True
      else localOutcome w (localRequests w) = None)"

definition idbAnswers :: "World \<Rightarrow> bool" where
  "idbAnswers w = (hasIndexedDB w \<and> idbOutcome w (idbRequests w) = None)"

text \<open>A job and worlds for the worked cases.\<close>

definition sampleJob :: JobState where
  "sampleJob = \<lparr>id' = ''job-1'', symbol = ''BTCUSDT'', proxyBaseUrl = [], autoResume = True,
                timezone = Some ''UTC'', createdAtISO = 0, updatedAtISO = 0,
                tasks = initialTaskState, data = Map.empty, logs = []\<rparr>"

definition freshWorld :: World where
  "freshWorld = \<lparr>state = None, active = False, observed = [], fetchCalls = [], loopsEntered = 0,
                 hasIndexedDB = True, idbOutcome = (\<lambda>n. None), idbRequests = 0,
                 localOutcome = (\<lambda>n. None), localRequests = 0,
                 idbDoc = None, localDoc = None, nowMs = 0\<rparr>"


text \<open>A world in the middle of a run: the job in memory and in IndexedDB, the loop active; and
  the same world with an IndexedDB whose next request (and only that one) rejects.\<close>

definition runningWorld :: World where
  "runningWorld = freshWorld\<lparr>state := Some sampleJob, active := True,
                              observed := [Some sampleJob], idbDoc := Some sampleJob\<rparr>"

definition hiccupWorld :: World where
  "hiccupWorld = runningWorld\<lparr>idbOutcome := (\<lambda>n. if n = 0 then Some ''AbortError'' else None)\<rparr>"

text \<open>A candle, the world of a job just put in memory, and the answer of the network that
  is a batch of \<open>n\<close> such candles.\<close>

definition sampleRow :: CandleRow where
  "sampleRow = \<lparr>openTimeISO = ''2024-01-01T00:00:00.000Z'', openTimeMs = 1704067200000,
                open' = ''42000.10'', high = ''42010.00'', low = ''41990.00'', close = ''42005.50'',
                volume = ''12.345'', closeTimeISO = ''2024-01-01T00:00:59.999Z'',
                closeTimeMs = 1704067259999, quoteVolume = None, numTrades = None,
                takerBuyBaseVol = None, takerBuyQuoteVol = None\<rparr>"

definition jobWorld :: World where
  "jobWorld = freshWorld\<lparr>state := Some sampleJob\<rparr>"

definition batchAnswer :: "nat \<Rightarrow> attempt" where
  "batchAnswer n = \<lparr>fetched = Inr (replicate n sampleRow), randomDraw = 0\<rparr>"

text \<open>A profile without IndexedDB whose \<open>localStorage\<close> takes one more write and is full
  after it; and one whose IndexedDB rejects its second request while \<open>localStorage\<close> is full.\<close>

definition quotaWorld :: World where
  "quotaWorld = jobWorld\<lparr>hasIndexedDB := False,
                         localOutcome := (\<lambda>n. if n = 0 then None else Some ''QuotaExceededError'')\<rparr>"

definition flakyWorld :: World where
  "flakyWorld = jobWorld\<lparr>idbOutcome := (\<lambda>n. if n = 1 then Some ''AbortError'' else None),
                         localOutcome := (\<lambda>n. Some ''QuotaExceededError'')\<rparr>"

text \<open>The world of \<open>jobWorld\<close> with the fetch of the first series under way.\<close>

definition fetchingWorld :: World where
  "fetchingWorld = snd (snd (executeInterval I1m [] jobWorld))"



text \<open>A profile that holds a saved job; one without IndexedDB that holds it in a
  \<open>localStorage\<close> which can be read and is full; and a job whose first series is done.\<close>

definition savedWorld :: World where
  "savedWorld = freshWorld\<lparr>idbDoc := Some sampleJob\<rparr>"




text \<open>Two answers of the network: a 429 whose \<open>Retry-After\<close> asks for five seconds, and a
  403.\<close>

definition throttled :: attempt where
  "throttled = \<lparr>fetched = Inl (ApiError \<lparr>message = ''HTTP 429'', httpStatus = Some 429,
                                         retryAfterMs = Some 5000, retryable = True\<rparr>),
                randomDraw = 0\<rparr>"

definition forbidden :: attempt where
  "forbidden = \<lparr>fetched = Inl (ApiError \<lparr>message = ''HTTP 403'', httpStatus = Some 403,
                                         retryAfterMs = None, retryable = False\<rparr>),
                randomDraw = 0\<rparr>"

text \<open>
  Two loops at work on one runner. \<open>resumeIfNeeded\<close> on a profile that holds a job starts
  the first loop, which stops at the fetch of the first series (\<open>resumedWorld\<close>). While that
  fetch is under way, \<open>clearSavedState\<close> resets \<open>active\<close> (\<open>clearedWorld\<close>) and \<open>startNewJob\<close>
  starts a second loop, which stops at its own fetch of the first series
  (\<open>restartedWorld\<close>). The fetch of the first loop then settles with the 429: its \<open>catch\<close>
  clause schedules a retry on the job now in memory and waits (\<open>throttledWorld\<close>). During
  that wait the fetch of the second loop settles with the 403 (\<open>failedWorld\<close>).
\<close>

definition resumedWorld :: World where
  "resumedWorld = snd (snd (resumeIfNeeded ''UTC'' [] savedWorld))"

definition clearedWorld :: World where
  "clearedWorld = snd (clearSavedState resumedWorld)"

definition restartedWorld :: World where
  "restartedWorld = snd (snd (startNewJob ''UTC'' ''job-2'' ''ETHUSDT'' [] True None [] clearedWorld))"

definition throttledWorld :: World where
  "throttledWorld = snd (afterFetch I1m throttled restartedWorld)"

definition failedWorld :: World where
  "failedWorld = snd (afterFetch I1m forbidden throttledWorld)"

definition taskView :: "Interval \<Rightarrow> JobState option \<Rightarrow> (string \<times> TaskStatus \<times> real option) option" where
  "taskView interval snapshot =
     map_option (\<lambda>st. (id' st, status (tasks st interval), retryAtMs (tasks st interval))) snapshot"

section \<open>Rounding to double precision\<close>

lemma scaleDown_pos: "0 < p \<Longrightarrow> 0 < scaleDown fuel p x"
proof (induction fuel p x rule: scaleDown.induct)
  case (1 fuel p x)
  then show ?case by (subst scaleDown.simps) auto
qed

lemma scaleDown_le: "0 < p \<Longrightarrow> scaleDown fuel p x \<le> p"
proof (induction fuel p x rule: scaleDown.induct)
  case (1 fuel p x)
  show ?case
  proof (cases "fuel = 0 \<or> p \<le> x")
    case True
    then show ?thesis by (subst scaleDown.simps) simp
  next
    case False
    with "1.IH" "1.prems" have "scaleDown (fuel - 1) (p / 2) x \<le> p / 2" by simp
    with False "1.prems" show ?thesis by (subst scaleDown.simps) simp
  qed
qed

lemma scaleUp_pos: "0 < p \<Longrightarrow> 0 < scaleUp fuel p x"
proof (induction fuel p x rule: scaleUp.induct)
  case (1 fuel p x)
  then show ?case by (subst scaleUp.simps) auto
qed

lemma scaleUp_le: "p \<le> x \<Longrightarrow> scaleUp fuel p x \<le> x"
proof (induction fuel p x rule: scaleUp.induct)
  case (1 fuel p x)
  then show ?case by (subst scaleUp.simps) auto
qed

lemma binade_pos: "0 < binade x"
  by (simp add: binade_def scaleUp_pos scaleDown_pos)

lemma binade_le: "1 \<le> x \<Longrightarrow> binade x \<le> x"
  by (simp add: binade_def scaleUp_le)

lemma binade_small: "x < 1 \<Longrightarrow> binade x \<le> 1 / 2"
  using scaleDown_le [of "1 / 2" 1021 x] by (simp add: binade_def)

lemma binade_half: "1 / 2 \<le> x \<Longrightarrow> x < 1 \<Longrightarrow> binade x = 1 / 2"
  by (simp add: binade_def scaleDown.simps [of 1021])

lemma binade_512: "512 \<le> x \<Longrightarrow> x < 1024 \<Longrightarrow> binade x = 512"
  by (simp add: binade_def scaleUp.simps)

lemma ulp_pos: "0 < ulp x"
  by (simp add: ulp_def binade_pos)

lemma roundEven_upper: "of_int (roundEven n) \<le> n + 1 / 2"
  by (auto simp: roundEven_def Let_def) linarith+

lemma roundEven_lower: "n - 1 / 2 \<le> of_int (roundEven n)"
  by (auto simp: roundEven_def Let_def) linarith+

lemma roundEven_nonneg: "0 \<le> n \<Longrightarrow> 0 \<le> roundEven n"
  by (auto simp: roundEven_def Let_def) 

lemma roundDouble_nonneg: "0 \<le> x \<Longrightarrow> 0 \<le> roundDouble x"
  using ulp_pos [of x] by (auto simp: roundDouble_def roundEven_nonneg less_imp_le)

lemma roundDouble_upper:
  assumes "0 < x"
  shows "roundDouble x \<le> x + ulp x / 2"
proof -
  have "of_int (roundEven (x / ulp x)) \<le> x / ulp x + 1 / 2" by (rule roundEven_upper)
  then have "of_int (roundEven (x / ulp x)) * ulp x \<le> (x / ulp x + 1 / 2) * ulp x"
    using ulp_pos [of x] by (simp add: mult_right_mono)
  also have "\<dots> = x + ulp x / 2" using ulp_pos [of x] by (simp add: field_simps)
  finally show ?thesis using assms by (simp add: roundDouble_def)
qed

lemma grid_below_one:
  fixes k N :: int
  assumes "0 < N" and "of_int k / (of_int N :: real) < 1"
  shows "of_int k / (of_int N :: real) \<le> 1 - 1 / of_int N"
proof -
  from assms have "(of_int k :: real) < of_int N" by (simp add: field_simps)
  then have "k < N" by (simp only: of_int_less_iff)
  then have "k + 1 \<le> N" by simp
  then have "(of_int (k + 1) :: real) \<le> of_int N" by (simp only: of_int_le_iff)
  with assms(1) show ?thesis by (simp add: field_simps)
qed

text \<open>The largest double below 1 is \<open>1 - 2^-53\<close>.\<close>

lemma double_below_one:
  assumes "isDouble r" and "0 \<le> r" and "r < 1"
  shows "r \<le> 1 - 1 / 2 ^ 53"
proof (cases "r < 1 / 2")
  case True
  have "(1 :: real) / 2 ^ 53 \<le> 1 / 2 ^ 1" by (intro divide_left_mono power_increasing) simp_all
  with True show ?thesis by simp
next
  case False
  then have h: "1 / 2 \<le> r" "0 < r" by simp_all
  from binade_half [OF h(1) assms(3)] have u: "ulp r = 1 / of_int (2 ^ 53)"
    by (simp add: ulp_def)
  define k where "k = roundEven (r / ulp r)"
  from assms(1) h(2) have "of_int k * ulp r = r"
    by (simp add: isDouble_def roundDouble_def k_def)
  then have r: "r = of_int k / of_int (2 ^ 53)" by (simp only: u) simp
  have "(0 :: int) < 2 ^ 53" by simp
  from grid_below_one [OF this, of k] assms(3) r
  have "r \<le> 1 - 1 / of_int (2 ^ 53)" by simp
  then show ?thesis by simp
qed

lemma product_range:
  assumes "admissibleDraw r"
  shows "0 \<le> jsMul r 1000 \<and> jsMul r 1000 < 1000"
proof -
  from assms have a: "0 \<le> r" "r < 1" "isDouble r" by (simp_all add: admissibleDraw_def)
  from double_below_one [OF a(3,1,2)] have top: "r * 1000 \<le> 1000 - 1000 / 2 ^ 53" by simp
  let ?y = "r * 1000"
  from a(1) have nonneg: "0 \<le> roundDouble ?y" by (simp add: roundDouble_nonneg)
  have "roundDouble ?y < 1000"
  proof (cases "?y = 0")
    case True
    then show ?thesis by (simp add: roundDouble_def)
  next
    case False
    with a(1) have pos: "0 < ?y" by simp
    note up = roundDouble_upper [OF pos]
    consider "?y < 1" | "1 \<le> ?y" "?y < 512" | "512 \<le> ?y"
      by linarith
    then show ?thesis
    proof cases
      case 1
      from binade_small [OF 1] have "ulp ?y \<le> 1" by (simp add: ulp_def field_simps)
      with up 1 show ?thesis by linarith
    next
      case 2
      from binade_le [OF 2(1)] 2(2) have "ulp ?y \<le> 512" 
        by (simp add: ulp_def field_simps)
      with up 2 show ?thesis by linarith
    next
      case 3
      from top have "?y < 1024" by simp
      from binade_512 [OF 3 this] have "ulp ?y = 512 / 2 ^ 52" by (simp add: ulp_def)
      with up top show ?thesis by simp
    qed
  qed
  with nonneg show ?thesis by (simp add: jsMul_def)
qed

lemma jitter_range:
  assumes "admissibleDraw rnd"
  shows "0 \<le> \<lfloor>jsMul rnd 1000\<rfloor> \<and> \<lfloor>jsMul rnd 1000\<rfloor> \<le> 999"
proof -
  from product_range [OF assms] have "0 \<le> jsMul rnd 1000" "jsMul rnd 1000 < 1000" by simp_all
  then show ?thesis by (simp add: floor_less_iff le_floor_iff)
qed

text \<open>The draws 0 and 1/2 are doubles, with products 0 and 500.\<close>

lemma roundDouble_500: "roundDouble 500 = 500"
  by (simp add: roundDouble_def ulp_def binade_def scaleUp.simps roundEven_def Let_def)

lemma draw_zero: "admissibleDraw 0 \<and> jsMul 0 1000 = 0"
  by (simp add: admissibleDraw_def isDouble_def jsMul_def roundDouble_def)

lemma draw_half: "admissibleDraw (1 / 2) \<and> jsMul (1 / 2) 1000 = 500"
  by (simp add: admissibleDraw_def isDouble_def jsMul_def roundDouble_def ulp_def binade_def
        scaleUp.simps scaleDown.simps roundEven_def Let_def)

lemma roundDouble_grid:
  assumes "0 < x" and "binade x = p" and "x / (p / 2 ^ 52) = q" and "roundEven q = n"
  shows "roundDouble x = of_int n * (p / 2 ^ 52)"
  using assms by (simp add: roundDouble_def ulp_def)

lemma roundEven_up:
  assumes "of_int f + 1 / 2 < q" and "q < of_int f + 1"
  shows "roundEven q = f + 1"
proof -
  from assms have "\<lfloor>q\<rfloor> = f" by (simp add: floor_eq_iff)
  with assms show ?thesis by (simp add: roundEven_def Let_def)
qed

lemma roundEven_int: "roundEven (of_int f) = f"
  by (simp add: roundEven_def Let_def)

text \<open>The double nearest to 0.999 lies below it; its product with 1000 rounds to 999.\<close>

lemma draw_999:
  "admissibleDraw (8998192055486251 / 2 ^ 53) \<and> jsMul (8998192055486251 / 2 ^ 53) 1000 = 999
     \<and> \<lfloor>8998192055486251 / 2 ^ 53 * 1000 :: real\<rfloor> = 998"
proof -
  let ?r = "8998192055486251 / 2 ^ 53 :: real"
  have b: "binade ?r = 1 / 2" by (rule binade_half) simp_all
  have q: "?r / (1 / 2 / 2 ^ 52) = of_int 8998192055486251" by simp
  from roundDouble_grid [OF _ b q roundEven_int] have "roundDouble ?r = ?r" by simp
  then have 1: "admissibleDraw ?r" by (simp add: admissibleDraw_def isDouble_def)
  have b2: "binade (?r * 1000) = 512" by (rule binade_512) simp_all
  have q2: "?r * 1000 / (512 / 2 ^ 52) = 8787296929185791 + 127 / 128" by simp
  have e2: "roundEven (8787296929185791 + 127 / 128) = 8787296929185791 + 1"
    by (rule roundEven_up) simp_all
  from roundDouble_grid [OF _ b2 q2 e2] have "roundDouble (?r * 1000) = 999" by simp
  then have 2: "jsMul ?r 1000 = 999" by (simp add: jsMul_def)
  have 3: "\<lfloor>?r * 1000\<rfloor> = 998" by (simp add: floor_eq_iff)
  from 1 2 3 show ?thesis by blast
qed

section \<open>The backoff policy: value, bounds and monotonicity\<close>

lemma exp_step:
  fixes a b :: nat
  assumes "a < b"
  shows "(60000::real) \<le> 1000 * 2 ^ min a 8 \<or> (1000 * 2 ^ min a 8 + 1000 :: real) \<le> 1000 * 2 ^ min b 8"
proof (cases "6 \<le> a")
  case True
  then have "(2::real) ^ 6 \<le> 2 ^ min a 8" by (intro power_increasing) auto
  then have "(64::real) \<le> 2 ^ min a 8" by simp
  then have "(60000::real) \<le> 1000 * 2 ^ min a 8" by linarith
  then show ?thesis by (rule disjI1)
next
  case False
  then have ma: "min a 8 = a" by simp
  from False assms have "Suc a \<le> min b 8" by simp
  then have "(2::real) ^ Suc a \<le> 2 ^ min b 8" by (intro power_increasing) auto
  then have h1: "2 * (2::real) ^ a \<le> 2 ^ min b 8" by simp
  have h2: "(1::real) \<le> 2 ^ a" by simp
  from h1 h2 have "(1000 * 2 ^ a + 1000 :: real) \<le> 1000 * 2 ^ min b 8" by linarith
  then have "(1000 * 2 ^ min a 8 + 1000 :: real) \<le> 1000 * 2 ^ min b 8" by (simp only: ma)
  then show ?thesis by (rule disjI2)
qed

lemma exp_mono:
  fixes a b :: nat
  assumes "a \<le> b"
  shows "(1000 * 2 ^ min a 8 :: real) \<le> 1000 * 2 ^ min b 8"
proof -
  from assms have "(2::real) ^ min a 8 \<le> 2 ^ min b 8" by (intro power_increasing) auto
  then show ?thesis by linarith
qed

lemma cap_mono:
  fixes ea eb ja jb :: real
  assumes "60000 \<le> ea \<or> ea + 1000 \<le> eb" and "ea \<le> eb"
    and "0 \<le> ja" and "ja \<le> 999" and "0 \<le> jb"
  shows "min 60000 (min 60000 ea + ja) \<le> min 60000 (min 60000 eb + jb)"
  using assms by (auto simp: min_def)

text \<open>
  Claim C3. For every attempts count and optional hint, the wait is \<open>min(hint, 60000)\<close> when a
  positive hint is present, and otherwise
  \<open>min(60000, min(60000, 1000 * 2^min(attempts, 8)) + jitter)\<close>, where the jitter is the floor
  of the double product \<open>Math.random() * 1000\<close>, an integer in \<open>[0, 999]\<close>. (At the double
  nearest to 0.999 the product rounds to 999 and the wait after one attempt is 2999.)
\<close>

theorem computeRetryDelayMs_value:
  assumes "admissibleDraw rnd"
  shows "(\<forall>hint. retryAfterMs' = Some hint \<and> 0 < hint \<longrightarrow>
            computeRetryDelayMs attempts' retryAfterMs' rnd = min hint 60000)
       \<and> (\<not> (\<exists>hint. retryAfterMs' = Some hint \<and> 0 < hint) \<longrightarrow>
            (\<exists>jitter::nat. jitter \<le> 999 \<and> jitter = nat \<lfloor>jsMul rnd 1000\<rfloor> \<and>
               computeRetryDelayMs attempts' retryAfterMs' rnd =
                 min 60000 (min 60000 (1000 * 2 ^ min attempts' 8) + real jitter)))"
proof -
  from jitter_range [OF assms] have j: "0 \<le> \<lfloor>jsMul rnd 1000\<rfloor>" "\<lfloor>jsMul rnd 1000\<rfloor> \<le> 999"
    by simp_all
  from j have "real (nat \<lfloor>jsMul rnd 1000\<rfloor>) = of_int \<lfloor>jsMul rnd 1000\<rfloor>" by simp
  moreover from j have "nat \<lfloor>jsMul rnd 1000\<rfloor> \<le> 999" by arith
  ultimately show ?thesis
    by (cases retryAfterMs') (auto simp: computeRetryDelayMs_def MAX_BACKOFF_MS_def Let_def)
qed

theorem computeRetryDelayMs_value_witness:
  "admissibleDraw (1 / 2) \<and> computeRetryDelayMs 3 (Some 5000) (1 / 2) = 5000
     \<and> computeRetryDelayMs 3 None (1 / 2) = 8500 \<and> computeRetryDelayMs 7 (Some 0) (1 / 2) = 60000
     \<and> admissibleDraw (8998192055486251 / 2 ^ 53)
     \<and> computeRetryDelayMs 1 None (8998192055486251 / 2 ^ 53) = 2999"
proof -
  from computeRetryDelayMs_value [of "1 / 2" "Some 5000" 3]
    computeRetryDelayMs_value [of "1 / 2" None 3]
    computeRetryDelayMs_value [of "1 / 2" "Some 0" 7] draw_half
  have 1: "admissibleDraw (1 / 2) \<and> computeRetryDelayMs 3 (Some 5000) (1 / 2) = 5000
     \<and> computeRetryDelayMs 3 None (1 / 2) = 8500 \<and> computeRetryDelayMs 7 (Some 0) (1 / 2) = 60000"
    by simp
  from draw_999 have d: "admissibleDraw (8998192055486251 / 2 ^ 53)"
    and p: "jsMul (8998192055486251 / 2 ^ 53) 1000 = 999"
    by blast+
  from computeRetryDelayMs_value [OF d, of None 1] p
  have 2: "computeRetryDelayMs 1 None (8998192055486251 / 2 ^ 53) = 2999"
    by simp
  from 1 d 2 show ?thesis by blast
qed

text \<open>
  Claim C4, as stated: for attempt counts \<open>a \<le> b\<close>, every admissible jitter draws of the two
  calls and a fixed hint, the wait at \<open>a\<close> is at most the wait at \<open>b\<close>. With one draw per call
  this fails at \<open>a = b = 1\<close>: the draws \<open>0.5\<close> and \<open>0\<close> give 2500 and 2000 milliseconds.
\<close>

theorem computeRetryDelayMs_draws_counterexample:
  "(1::nat) \<le> 1 \<and> admissibleDraw (1 / 2) \<and> admissibleDraw 0
     \<and> \<not> computeRetryDelayMs 1 None (1 / 2) \<le> computeRetryDelayMs 1 None 0"
  using draw_half draw_zero by (simp add: computeRetryDelayMs_def MAX_BACKOFF_MS_def)

text \<open>
  Claim C4, amended. For attempt counts \<open>a \<le> b\<close>, admissible draws and a fixed hint, the wait
  at \<open>a\<close> is at most the wait at \<open>b\<close> whenever \<open>a < b\<close>, or \<open>a = b\<close> and the jitter drawn at
  \<open>a\<close> is at most the jitter drawn at \<open>b\<close> (in particular with the same draw); and every
  wait lies in \<open>[0, 60000]\<close> milliseconds.
\<close>

theorem computeRetryDelayMs_monotone_bounded:
  assumes "a \<le> b" and "admissibleDraw ra" and "admissibleDraw rb"
    and "a = b \<longrightarrow> \<lfloor>jsMul ra 1000\<rfloor> \<le> \<lfloor>jsMul rb 1000\<rfloor>"
  shows "computeRetryDelayMs a hint ra \<le> computeRetryDelayMs b hint rb
       \<and> 0 \<le> computeRetryDelayMs a hint ra \<and> computeRetryDelayMs a hint ra \<le> 60000"
proof -
  let ?ja = "of_int \<lfloor>jsMul ra 1000\<rfloor> :: real" and ?jb = "of_int \<lfloor>jsMul rb 1000\<rfloor> :: real"
  let ?ea = "1000 * 2 ^ min a 8 :: real" and ?eb = "1000 * 2 ^ min b 8 :: real"
  from jitter_range [OF assms(2)] have ja: "0 \<le> ?ja" "?ja \<le> 999" by simp_all
  from jitter_range [OF assms(3)] have jb: "0 \<le> ?jb" "?jb \<le> 999" by simp_all
  have ea: "0 \<le> ?ea" and eb: "0 \<le> ?eb" by simp_all
  have mono: "min 60000 (min 60000 ?ea + ?ja) \<le> min 60000 (min 60000 ?eb + ?jb)"
  proof (cases "a = b")
    case True
    with assms(4) have "?ja \<le> ?jb" by simp
    with True show ?thesis by (simp add: min_def)
  next
    case False
    with assms(1) have "a < b" by simp
    from cap_mono [OF exp_step [OF this] exp_mono [OF assms(1)] ja jb(1)] show ?thesis .
  qed
  have backoff: "computeRetryDelayMs a hint ra = min 60000 (min 60000 ?ea + ?ja)
      \<and> computeRetryDelayMs b hint rb = min 60000 (min 60000 ?eb + ?jb)"
    if "hint = None \<or> (\<exists>h. hint = Some h \<and> h \<le> 0)"
    using that by (auto simp: computeRetryDelayMs_def MAX_BACKOFF_MS_def Let_def)
  have hinted: "computeRetryDelayMs a hint ra = min h 60000
      \<and> computeRetryDelayMs b hint rb = min h 60000"
    if "hint = Some h" and "0 < h" for h
    using that by (simp add: computeRetryDelayMs_def MAX_BACKOFF_MS_def)
  show ?thesis
  proof (cases hint)
    case None
    with backoff mono ja ea show ?thesis by (simp add: min_def)
  next
    case (Some h)
    show ?thesis
    proof (cases "0 < h")
      case True
      with hinted [OF Some] show ?thesis by (simp add: min_def)
    next
      case False
      with Some have "hint = None \<or> (\<exists>h. hint = Some h \<and> h \<le> 0)" by simp
      from backoff [OF this] mono ja ea show ?thesis by (simp add: min_def)
    qed
  qed
qed

theorem computeRetryDelayMs_monotone_bounded_witness:
  "(1::nat) \<le> 2 \<and> admissibleDraw (1 / 2) \<and> admissibleDraw 0
     \<and> computeRetryDelayMs 1 None (1 / 2) = 2500 \<and> computeRetryDelayMs 2 None 0 = 4000
     \<and> computeRetryDelayMs 1 None (1 / 2) \<le> computeRetryDelayMs 2 None 0"
  using computeRetryDelayMs_monotone_bounded [of 1 2 "1 / 2" 0 None] draw_half draw_zero
  by (simp add: computeRetryDelayMs_def MAX_BACKOFF_MS_def)

section \<open>Classification of fetch outcomes and the retry hint\<close>

lemma toCandleRow_retryable:
  "toCandleRow B raw = Inl e \<Longrightarrow> retryable (onCaught e)"
  by (auto simp: toCandleRow_def onCaught_def split: json.splits if_splits sum.splits)

lemma toCandleRow_illShaped:
  "\<not> wellShaped raw \<Longrightarrow> \<exists>e. toCandleRow B raw = Inl e"
  by (auto simp: toCandleRow_def wellShaped_def split: json.splits)

lemma mapRows_retryable:
  "mapRows B items = Inl e \<Longrightarrow> retryable (onCaught e)"
proof (induction items arbitrary: e)
  case Nil
  then show ?case by simp
next
  case (Cons item rest)
  then show ?case
    by (auto split: sum.splits dest: toCandleRow_retryable)
qed

lemma mapRows_illShaped:
  "\<exists>item \<in> set items. \<not> wellShaped item \<Longrightarrow> \<exists>e. mapRows B items = Inl e"
proof (induction items)
  case Nil
  then show ?case by simp
next
  case (Cons item rest)
  show ?case
  proof (cases "toCandleRow B item")
    case (Inl e)
    then show ?thesis by simp
  next
    case (Inr row)
    with toCandleRow_illShaped [of item B] have "wellShaped item" by auto
    with Cons.prems have "\<exists>item \<in> set rest. \<not> wellShaped item" by auto
    from Cons.IH [OF this] Inr show ?thesis by auto
  qed
qed

lemma mapRows_length:
  "mapRows B items = Inr rows \<Longrightarrow> length rows = length items"
  by (induction items arbitrary: rows) (auto split: sum.splits)

lemma onRejected_retryable: "retryable (onRejected r)"
  by (cases r) (simp_all add: onRejected_def onCaught_def)

lemma retryableStatus_not_ok:
  "retryableStatus (statusCode response) \<Longrightarrow> \<not> ok response"
  by (auto simp: retryableStatus_def ok_def)

text \<open>
  Claim C2. For every outcome of one remote fetch: a response with status 429, 418 or at least
  500 is retryable; a network-level failure or a timeout (the promise of \<open>fetch\<close> rejects) is
  retryable; a successful response whose body cannot be read as JSON, is not an array, or holds
  a tuple that is no array of at least seven elements is retryable; every other non-2xx status
  is fatal, and its message is \<open>HTTP <status>\<close> followed, when the body is not empty, by a
  colon and the first 250 characters of the body.
\<close>

theorem fetchKlines_classification:
  "(\<forall>response. outcome = Fetched (Resolved response) \<and> retryableStatus (statusCode response)
       \<longrightarrow> (\<exists>e. fetchKlines B outcome = Inl e \<and> isRetryable e))
   \<and> (\<forall>r. outcome = Fetched (Rejected r)
       \<longrightarrow> (\<exists>e. fetchKlines B outcome = Inl e \<and> isRetryable e))
   \<and> (\<forall>response. outcome = Fetched (Resolved response) \<and> ok response
          \<and> ((\<exists>r. bodyJson response = Rejected r)
              \<or> (\<exists>j. bodyJson response = Resolved j \<and> (\<forall>items. j \<noteq> JArray items))
              \<or> (\<exists>items. bodyJson response = Resolved (JArray items)
                     \<and> (\<exists>item \<in> set items. \<not> wellShaped item)))
       \<longrightarrow> (\<exists>e. fetchKlines B outcome = Inl e \<and> isRetryable e))
   \<and> (\<forall>response. outcome = Fetched (Resolved response) \<and> \<not> ok response
          \<and> \<not> retryableStatus (statusCode response)
       \<longrightarrow> (\<exists>err. fetchKlines B outcome = Inl (ApiError err) \<and> \<not> isRetryable (ApiError err)
              \<and> message err = ''HTTP '' @ showNat (statusCode response)
                   @ (case bodyText response of
                        Resolved detail \<Rightarrow> if detail = [] then [] else '': '' @ take 250 detail
                      | Rejected _ \<Rightarrow> [])
              \<and> length (message err) \<le> length (showNat (statusCode response)) + 257))"
proof (intro conjI allI impI)
  fix response
  assume a: "outcome = Fetched (Resolved response) \<and> retryableStatus (statusCode response)"
  then have "\<not> ok response" by (simp add: retryableStatus_not_ok)
  with a show "\<exists>e. fetchKlines B outcome = Inl e \<and> isRetryable e"
    by (auto simp: fetchKlines_def isRetryable_def retryableStatus_def Let_def)
next
  fix r
  assume "outcome = Fetched (Rejected r)"
  then show "\<exists>e. fetchKlines B outcome = Inl e \<and> isRetryable e"
    by (simp add: fetchKlines_def isRetryable_def onRejected_retryable)
next
  fix response
  assume a: "outcome = Fetched (Resolved response) \<and> ok response
          \<and> ((\<exists>r. bodyJson response = Rejected r)
              \<or> (\<exists>j. bodyJson response = Resolved j \<and> (\<forall>items. j \<noteq> JArray items))
              \<or> (\<exists>items. bodyJson response = Resolved (JArray items)
                     \<and> (\<exists>item \<in> set items. \<not> wellShaped item)))"
  then consider (rej) r where "bodyJson response = Rejected r"
    | (nonarray) j where "bodyJson response = Resolved j" "\<forall>items. j \<noteq> JArray items"
    | (short) items where "bodyJson response = Resolved (JArray items)"
        "\<exists>item \<in> set items. \<not> wellShaped item"
    by blast
  then show "\<exists>e. fetchKlines B outcome = Inl e \<and> isRetryable e"
  proof cases
    case rej
    with a show ?thesis
      by (simp add: fetchKlines_def isRetryable_def onRejected_retryable)
  next
    case nonarray
    with a show ?thesis
      by (cases j) (simp_all add: fetchKlines_def isRetryable_def)
  next
    case short
    from mapRows_illShaped [OF short(2)] obtain e where e: "mapRows B items = Inl e" by blast
    from mapRows_retryable [OF e] have "retryable (onCaught e)" .
    with a short(1) e show ?thesis
      by (simp add: fetchKlines_def isRetryable_def)
  qed
next
  fix response
  assume a: "outcome = Fetched (Resolved response) \<and> \<not> ok response
          \<and> \<not> retryableStatus (statusCode response)"
  let ?detail = "case bodyText response of Resolved t \<Rightarrow> t | Rejected _ \<Rightarrow> []"
  let ?err = "\<lparr>message = ''HTTP '' @ showNat (statusCode response)
                   @ (if ?detail \<noteq> [] then '': '' @ take 250 ?detail else []),
               httpStatus = Some (statusCode response),
               retryAfterMs = parseRetryAfterMs B (headers response),
               retryable = (statusCode response = 418 \<or> statusCode response = 429
                              \<or> statusCode response \<ge> 500)\<rparr>"
  from a have 1: "fetchKlines B outcome = Inl (ApiError ?err)"
    by (simp add: fetchKlines_def Let_def)
  from a have 2: "\<not> isRetryable (ApiError ?err)"
    by (auto simp: isRetryable_def retryableStatus_def)
  have 3: "message ?err = ''HTTP '' @ showNat (statusCode response)
                   @ (case bodyText response of
                        Resolved detail \<Rightarrow> if detail = [] then [] else '': '' @ take 250 detail
                      | Rejected _ \<Rightarrow> [])"
    by (cases "bodyText response") simp_all
  have 4: "length (message ?err) \<le> length (showNat (statusCode response)) + 257"
    by simp
  from 1 2 3 4
  show "\<exists>err. fetchKlines B outcome = Inl (ApiError err) \<and> \<not> isRetryable (ApiError err)
              \<and> message err = ''HTTP '' @ showNat (statusCode response)
                   @ (case bodyText response of
                        Resolved detail \<Rightarrow> if detail = [] then [] else '': '' @ take 250 detail
                      | Rejected _ \<Rightarrow> [])
              \<and> length (message err) \<le> length (showNat (statusCode response)) + 257"
    by blast
qed

lemma showNat_403: "showNat 403 = ''403''"
  by (simp add: showNat.simps digitChar_def)

theorem fetchKlines_classification_witness:
  "(\<exists>e. fetchKlines noBuiltins (Fetched (Resolved (sampleResponse 429 None ''slow down'' JNull))) = Inl e
        \<and> isRetryable e)
   \<and> (\<exists>e. fetchKlines noBuiltins (Fetched (Rejected AbortError)) = Inl e \<and> isRetryable e)
   \<and> (\<exists>e. fetchKlines noBuiltins (Fetched (Resolved (sampleResponse 200 None [] (JArray [JArray [JNull]]))))
            = Inl e \<and> isRetryable e)
   \<and> (\<exists>err. fetchKlines noBuiltins (Fetched (Resolved (sampleResponse 403 None ''Forbidden'' JNull)))
            = Inl (ApiError err)
        \<and> \<not> isRetryable (ApiError err) \<and> message err = ''HTTP 403: Forbidden'')"
proof -
  have a: "retryableStatus (statusCode (sampleResponse 429 None ''slow down'' JNull))"
    by (simp add: retryableStatus_def sampleResponse_def)
  have c: "ok (sampleResponse 200 None [] (JArray [JArray [JNull]]))
      \<and> bodyJson (sampleResponse 200 None [] (JArray [JArray [JNull]])) = Resolved (JArray [JArray [JNull]])
      \<and> (\<exists>item \<in> set [JArray [JNull]]. \<not> wellShaped item)"
    by (simp add: ok_def sampleResponse_def wellShaped_def)
  have d: "\<not> ok (sampleResponse 403 None ''Forbidden'' JNull)
      \<and> \<not> retryableStatus (statusCode (sampleResponse 403 None ''Forbidden'' JNull))"
    by (simp add: ok_def sampleResponse_def retryableStatus_def)
  have d': "statusCode (sampleResponse 403 None ''Forbidden'' JNull) = 403"
     "bodyText (sampleResponse 403 None ''Forbidden'' JNull) = Resolved ''Forbidden''"
    by (simp_all add: sampleResponse_def)
  from fetchKlines_classification
         [of "Fetched (Resolved (sampleResponse 429 None ''slow down'' JNull))" noBuiltins] a
  have 1: "\<exists>e. fetchKlines noBuiltins (Fetched (Resolved (sampleResponse 429 None ''slow down'' JNull))) = Inl e
        \<and> isRetryable e" by blast
  from fetchKlines_classification [of "Fetched (Rejected AbortError)" noBuiltins]
  have 2: "\<exists>e. fetchKlines noBuiltins (Fetched (Rejected AbortError)) = Inl e \<and> isRetryable e"
    by blast
  from fetchKlines_classification
         [of "Fetched (Resolved (sampleResponse 200 None [] (JArray [JArray [JNull]])))" noBuiltins] c
  have 3: "\<exists>e. fetchKlines noBuiltins (Fetched (Resolved (sampleResponse 200 None [] (JArray [JArray [JNull]]))))
            = Inl e \<and> isRetryable e" by blast
  from fetchKlines_classification
         [of "Fetched (Resolved (sampleResponse 403 None ''Forbidden'' JNull))" noBuiltins] d
  obtain err where "fetchKlines noBuiltins (Fetched (Resolved (sampleResponse 403 None ''Forbidden'' JNull)))
            = Inl (ApiError err)" "\<not> isRetryable (ApiError err)"
     "message err = ''HTTP '' @ showNat (statusCode (sampleResponse 403 None ''Forbidden'' JNull))
                   @ (case bodyText (sampleResponse 403 None ''Forbidden'' JNull) of
                        Resolved detail \<Rightarrow> if detail = [] then [] else '': '' @ take 250 detail
                      | Rejected _ \<Rightarrow> [])"
    by blast
  then have 4: "\<exists>err. fetchKlines noBuiltins (Fetched (Resolved (sampleResponse 403 None ''Forbidden'' JNull)))
            = Inl (ApiError err)
        \<and> \<not> isRetryable (ApiError err) \<and> message err = ''HTTP 403: Forbidden''"
    by (simp add: d' showNat_403)
  from 1 2 3 4 show ?thesis by blast
qed

lemma toCandleRow_no_hint: "toCandleRow B raw = Inl e \<Longrightarrow> retryAfterMs (onCaught e) = None"
  by (auto simp: toCandleRow_def onCaught_def split: json.splits if_splits sum.splits)

lemma mapRows_no_hint: "mapRows B items = Inl e \<Longrightarrow> retryAfterMs (onCaught e) = None"
proof (induction items arbitrary: e)
  case Nil
  then show ?case by simp
next
  case (Cons item rest)
  then show ?case by (auto split: sum.splits dest: toCandleRow_no_hint)
qed

lemma onRejected_no_hint: "retryAfterMs (onRejected r) = None"
  by (cases r) (simp_all add: onRejected_def onCaught_def)

lemma roundDouble_5000: "roundDouble 5000 = 5000"
  by (simp add: roundDouble_def ulp_def binade_def scaleUp.simps roundEven_def Let_def)

lemma roundDouble_10000: "roundDouble 10000 = 10000"
  by (simp add: roundDouble_def ulp_def binade_def scaleUp.simps roundEven_def Let_def)

text \<open>
  Claim C5, as stated: every retryable failure that carries a retry-hint header value has the
  hint extracted by the four rules. A 200 response with \<open>retry-after: 5\<close> whose body is not an
  array is a retryable failure with no hint, since the header is read for non-2xx responses
  only; and a 429 response whose \<open>retry-after\<close> is the empty string (numeric: \<open>Number("")\<close> is
  0) has no hint either.
\<close>

theorem retry_hint_ignored_counterexample:
  "headers (sampleResponse 200 (Some ''5'') [] (JObject [])) ''retry-after'' = Some ''5''
     \<and> jsNumber noBuiltins ''5'' = Some 5
     \<and> fetchKlines noBuiltins (Fetched (Resolved (sampleResponse 200 (Some ''5'') [] (JObject []))))
         = Inl (ApiError \<lparr>message = ''Unexpected Binance response format'', httpStatus = None,
                            retryAfterMs = None, retryable = True\<rparr>)
     \<and> isRetryable (ApiError \<lparr>message = ''Unexpected Binance response format'', httpStatus = None,
                                retryAfterMs = None, retryable = True\<rparr>)
     \<and> headers (sampleResponse 429 (Some []) [] JNull) ''retry-after'' = Some []
     \<and> jsNumber noBuiltins [] = Some 0
     \<and> fetchKlines noBuiltins (Fetched (Resolved (sampleResponse 429 (Some []) [] JNull)))
         = Inl (ApiError \<lparr>message = ''HTTP 429'', httpStatus = Some 429,
                            retryAfterMs = None, retryable = True\<rparr>)"
  by (simp add: sampleResponse_def noBuiltins_def fetchKlines_def ok_def isRetryable_def
        parseRetryAfterMs_def orElse_def Let_def showNat.simps digitChar_def)

text \<open>
  Claim C5, amended. For every retryable failure that is a non-2xx response (status 418, 429
  or at least 500) carrying a non-empty retry-hint header value (the first present of
  \<open>retry-after\<close>, \<open>x-retry-after\<close>, \<open>retry-after-ms\<close>): a finite numeric value over 1000 is the
  hint as it is; a finite numeric value of at most 1000 is multiplied by 1000; any other value
  that parses as a date gives the time left until that date, floored at zero; a value that is
  neither gives no hint. A retryable failure with no or an empty header value, and one that
  is no non-2xx response (network failure, timeout, undecodable body of a 2xx response),
  carries no hint.
\<close>

theorem retry_hint_extraction:
  "(\<forall>response v. outcome = Fetched (Resolved response) \<and> retryableStatus (statusCode response)
        \<and> orElse (headers response ''retry-after'')
             (orElse (headers response ''x-retry-after'') (headers response ''retry-after-ms''))
           = Some v \<and> v \<noteq> []
      \<longrightarrow> (\<exists>err. fetchKlines B outcome = Inl (ApiError err) \<and> retryable err
            \<and> (\<forall>n. jsNumber B v = Some n \<and> n > 1000 \<longrightarrow> retryAfterMs err = Some n)
            \<and> (\<forall>n. jsNumber B v = Some n \<and> n \<le> 1000 \<longrightarrow> retryAfterMs err = Some (jsMul n 1000))
            \<and> (\<forall>d. jsNumber B v = None \<and> dateParse B v = Some d
                   \<longrightarrow> retryAfterMs err = Some (max 0 (jsSub d (dateNow B)))
                       \<and> 0 \<le> max 0 (jsSub d (dateNow B)))
            \<and> (jsNumber B v = None \<and> dateParse B v = None \<longrightarrow> retryAfterMs err = None)))
   \<and> (\<forall>response. outcome = Fetched (Resolved response) \<and> retryableStatus (statusCode response)
        \<and> orElse (headers response ''retry-after'')
             (orElse (headers response ''x-retry-after'') (headers response ''retry-after-ms''))
           \<in> {None, Some []}
      \<longrightarrow> (\<exists>err. fetchKlines B outcome = Inl (ApiError err) \<and> retryable err
            \<and> retryAfterMs err = None))
   \<and> (\<forall>err. ((\<exists>r. outcome = Fetched (Rejected r))
              \<or> (\<exists>response. outcome = Fetched (Resolved response) \<and> ok response))
        \<and> fetchKlines B outcome = Inl (ApiError err)
      \<longrightarrow> retryable err \<and> retryAfterMs err = None)"
proof -
  have p1: "(\<forall>response v. outcome = Fetched (Resolved response) \<and> retryableStatus (statusCode response)
        \<and> orElse (headers response ''retry-after'')
             (orElse (headers response ''x-retry-after'') (headers response ''retry-after-ms''))
           = Some v \<and> v \<noteq> []
      \<longrightarrow> (\<exists>err. fetchKlines B outcome = Inl (ApiError err) \<and> retryable err
            \<and> (\<forall>n. jsNumber B v = Some n \<and> n > 1000 \<longrightarrow> retryAfterMs err = Some n)
            \<and> (\<forall>n. jsNumber B v = Some n \<and> n \<le> 1000 \<longrightarrow> retryAfterMs err = Some (jsMul n 1000))
            \<and> (\<forall>d. jsNumber B v = None \<and> dateParse B v = Some d
                   \<longrightarrow> retryAfterMs err = Some (max 0 (jsSub d (dateNow B)))
                       \<and> 0 \<le> max 0 (jsSub d (dateNow B)))
            \<and> (jsNumber B v = None \<and> dateParse B v = None \<longrightarrow> retryAfterMs err = None)))"
  proof (intro allI impI)
  fix response v
  assume a: "outcome = Fetched (Resolved response) \<and> retryableStatus (statusCode response)
        \<and> orElse (headers response ''retry-after'')
             (orElse (headers response ''x-retry-after'') (headers response ''retry-after-ms''))
           = Some v \<and> v \<noteq> []"
  let ?detail = "case bodyText response of Resolved t \<Rightarrow> t | Rejected _ \<Rightarrow> []"
  let ?err = "\<lparr>message = ''HTTP '' @ showNat (statusCode response)
                   @ (if ?detail \<noteq> [] then '': '' @ take 250 ?detail else []),
               httpStatus = Some (statusCode response),
               retryAfterMs = parseRetryAfterMs B (headers response),
               retryable = (statusCode response = 418 \<or> statusCode response = 429
                              \<or> statusCode response \<ge> 500)\<rparr>"
  from a have "\<not> ok response" by (simp add: retryableStatus_not_ok)
  with a have 1: "fetchKlines B outcome = Inl (ApiError ?err)"
    by (simp add: fetchKlines_def Let_def)
  from a have 2: "retryable ?err" by (auto simp: retryableStatus_def)
  from a have 3: "retryAfterMs ?err =
      (case jsNumber B v of
         Some numeric \<Rightarrow> Some (if numeric > 1000 then numeric else jsMul numeric 1000)
       | None \<Rightarrow> (case dateParse B v of
                    Some dateMs \<Rightarrow> Some (max 0 (jsSub dateMs (dateNow B))) | None \<Rightarrow> None))"
    by (simp add: parseRetryAfterMs_def)
  have "(\<forall>n. jsNumber B v = Some n \<and> n > 1000 \<longrightarrow> retryAfterMs ?err = Some n)
      \<and> (\<forall>n. jsNumber B v = Some n \<and> n \<le> 1000 \<longrightarrow> retryAfterMs ?err = Some (jsMul n 1000))
      \<and> (\<forall>d. jsNumber B v = None \<and> dateParse B v = Some d
             \<longrightarrow> retryAfterMs ?err = Some (max 0 (jsSub d (dateNow B)))
                 \<and> 0 \<le> max 0 (jsSub d (dateNow B)))
      \<and> (jsNumber B v = None \<and> dateParse B v = None \<longrightarrow> retryAfterMs ?err = None)"
    unfolding 3 by auto
  with 1 2 show "\<exists>err. fetchKlines B outcome = Inl (ApiError err) \<and> retryable err
            \<and> (\<forall>n. jsNumber B v = Some n \<and> n > 1000 \<longrightarrow> retryAfterMs err = Some n)
            \<and> (\<forall>n. jsNumber B v = Some n \<and> n \<le> 1000 \<longrightarrow> retryAfterMs err = Some (jsMul n 1000))
            \<and> (\<forall>d. jsNumber B v = None \<and> dateParse B v = Some d
                   \<longrightarrow> retryAfterMs err = Some (max 0 (jsSub d (dateNow B)))
                       \<and> 0 \<le> max 0 (jsSub d (dateNow B)))
            \<and> (jsNumber B v = None \<and> dateParse B v = None \<longrightarrow> retryAfterMs err = None)"
    by blast
  qed
  have p2: "(\<forall>response. outcome = Fetched (Resolved response) \<and> retryableStatus (statusCode response)
        \<and> orElse (headers response ''retry-after'')
             (orElse (headers response ''x-retry-after'') (headers response ''retry-after-ms''))
           \<in> {None, Some []}
      \<longrightarrow> (\<exists>err. fetchKlines B outcome = Inl (ApiError err) \<and> retryable err
            \<and> retryAfterMs err = None))"
  proof (intro allI impI)
  fix response
  assume a: "outcome = Fetched (Resolved response) \<and> retryableStatus (statusCode response)
        \<and> orElse (headers response ''retry-after'')
             (orElse (headers response ''x-retry-after'') (headers response ''retry-after-ms''))
           \<in> {None, Some []}"
  then have "\<not> ok response" by (simp add: retryableStatus_not_ok)
  with a show "\<exists>err. fetchKlines B outcome = Inl (ApiError err) \<and> retryable err
            \<and> retryAfterMs err = None"
    by (auto simp: fetchKlines_def Let_def retryableStatus_def parseRetryAfterMs_def)
  qed
  have p3: "(\<forall>err. ((\<exists>r. outcome = Fetched (Rejected r))
              \<or> (\<exists>response. outcome = Fetched (Resolved response) \<and> ok response))
        \<and> fetchKlines B outcome = Inl (ApiError err)
      \<longrightarrow> retryable err \<and> retryAfterMs err = None)"
  proof (intro allI impI)
  fix err
  assume a: "((\<exists>r. outcome = Fetched (Rejected r))
              \<or> (\<exists>response. outcome = Fetched (Resolved response) \<and> ok response))
        \<and> fetchKlines B outcome = Inl (ApiError err)"
  then consider (rej) r where "outcome = Fetched (Rejected r)"
    | (ok) response where "outcome = Fetched (Resolved response)" "ok response"
    by blast
  then show "retryable err \<and> retryAfterMs err = None"
  proof cases
    case rej
    with a show ?thesis by (auto simp: fetchKlines_def onRejected_retryable onRejected_no_hint)
  next
    case ok
    with a show ?thesis
      by (auto simp: fetchKlines_def onRejected_retryable onRejected_no_hint
               split: settled.splits json.splits sum.splits
               dest: mapRows_retryable mapRows_no_hint)
  qed
  qed
  show ?thesis by (rule conjI [OF p1 conjI [OF p2 p3]])
qed

theorem retry_hint_extraction_witness:
  "(\<exists>err. fetchKlines noBuiltins (Fetched (Resolved (sampleResponse 429 (Some ''5000'') [] JNull)))
             = Inl (ApiError err) \<and> retryable err \<and> retryAfterMs err = Some 5000)
   \<and> (\<exists>err. fetchKlines noBuiltins (Fetched (Resolved (sampleResponse 429 (Some ''5'') [] JNull)))
             = Inl (ApiError err) \<and> retryable err \<and> retryAfterMs err = Some 5000)
   \<and> (\<exists>err. fetchKlines noBuiltins (Fetched (Resolved
               (sampleResponse 503 (Some ''Wed, 21 Oct 2015 07:28:00 GMT'') [] JNull)))
             = Inl (ApiError err) \<and> retryable err \<and> retryAfterMs err = Some 10000)
   \<and> (\<exists>err. fetchKlines noBuiltins (Fetched (Resolved (sampleResponse 418 (Some ''soon'') [] JNull)))
             = Inl (ApiError err) \<and> retryable err \<and> retryAfterMs err = None)
   \<and> (\<exists>err. fetchKlines noBuiltins (Fetched (Resolved (sampleResponse 500 None [] JNull)))
             = Inl (ApiError err) \<and> retryable err \<and> retryAfterMs err = None)
   \<and> (\<exists>err. fetchKlines noBuiltins (Fetched (Rejected AbortError)) = Inl (ApiError err)
             \<and> retryable err \<and> retryAfterMs err = None)"
proof -
  note T = retry_hint_extraction [where B = noBuiltins]
  have 1: "\<exists>err. fetchKlines noBuiltins (Fetched (Resolved (sampleResponse 429 (Some ''5000'') [] JNull)))
             = Inl (ApiError err) \<and> retryable err \<and> retryAfterMs err = Some 5000"
    using T [of "Fetched (Resolved (sampleResponse 429 (Some ''5000'') [] JNull))"]
    by (simp add: retryableStatus_def sampleResponse_def orElse_def noBuiltins_def)
  have 2: "\<exists>err. fetchKlines noBuiltins (Fetched (Resolved (sampleResponse 429 (Some ''5'') [] JNull)))
             = Inl (ApiError err) \<and> retryable err \<and> retryAfterMs err = Some 5000"
    using T [of "Fetched (Resolved (sampleResponse 429 (Some ''5'') [] JNull))"]
    by (simp add: retryableStatus_def sampleResponse_def orElse_def noBuiltins_def jsMul_def
          roundDouble_5000)
  have 3: "\<exists>err. fetchKlines noBuiltins (Fetched (Resolved
               (sampleResponse 503 (Some ''Wed, 21 Oct 2015 07:28:00 GMT'') [] JNull)))
             = Inl (ApiError err) \<and> retryable err \<and> retryAfterMs err = Some 10000"
    using T [of "Fetched (Resolved (sampleResponse 503 (Some ''Wed, 21 Oct 2015 07:28:00 GMT'') [] JNull))"]
    by (simp add: retryableStatus_def sampleResponse_def orElse_def noBuiltins_def jsSub_def
          roundDouble_10000)
  have 4: "\<exists>err. fetchKlines noBuiltins (Fetched (Resolved (sampleResponse 418 (Some ''soon'') [] JNull)))
             = Inl (ApiError err) \<and> retryable err \<and> retryAfterMs err = None"
    using T [of "Fetched (Resolved (sampleResponse 418 (Some ''soon'') [] JNull))"]
    by (simp add: retryableStatus_def sampleResponse_def orElse_def noBuiltins_def)
  have 5: "\<exists>err. fetchKlines noBuiltins (Fetched (Resolved (sampleResponse 500 None [] JNull)))
             = Inl (ApiError err) \<and> retryable err \<and> retryAfterMs err = None"
    using T [of "Fetched (Resolved (sampleResponse 500 None [] JNull))"]
    by (simp add: retryableStatus_def sampleResponse_def orElse_def)
  have "\<exists>err. fetchKlines noBuiltins (Fetched (Rejected AbortError)) = Inl (ApiError err)"
    by (simp add: fetchKlines_def)
  with T [of "Fetched (Rejected AbortError)"]
  have 6: "\<exists>err. fetchKlines noBuiltins (Fetched (Rejected AbortError)) = Inl (ApiError err)
             \<and> retryable err \<and> retryAfterMs err = None"
    by blast
  from 1 2 3 4 5 6 show ?thesis by blast
qed

section \<open>Persistence of a mutation, and clearing\<close>

lemma persistAndEmit_eq:
  "persistAndEmit st w =
     (if idbAnswers w
      then (Ok (), w\<lparr>state := Some st, idbRequests := idbRequests w + 1, idbDoc := Some st,
                      observed := observed w @ [Some st]\<rparr>)
      else (case localOutcome w (localRequests w) of
              None \<Rightarrow> (Ok (), w\<lparr>state := Some st,
                                 idbRequests := (if hasIndexedDB w then idbRequests w + 1
                                                 else idbRequests w),
                                 localRequests := localRequests w + 1, localDoc := Some st,
                                 observed := observed w @ [Some st]\<rparr>)
            | Some m \<Rightarrow> (Throw (JsError m),
                         w\<lparr>state := Some st,
                           idbRequests := (if hasIndexedDB w then idbRequests w + 1
                                           else idbRequests w),
                           localRequests := localRequests w + 1\<rparr>)))"
  by (auto simp: persistAndEmit_def storageSet_def idbSet_def localStoreSet_def idbAnswers_def
           split: option.splits)




lemma clearSavedState_eq:
  "clearSavedState w =
     (if idbAnswers w
      then (Ok (), w\<lparr>active := False, state := None, idbRequests := idbRequests w + 1,
                      idbDoc := None, observed := observed w @ [None]\<rparr>)
      else (case localOutcome w (localRequests w) of
              None \<Rightarrow> (Ok (), w\<lparr>active := False, state := None,
                                 idbRequests := (if hasIndexedDB w then idbRequests w + 1
                                                 else idbRequests w),
                                 localRequests := localRequests w + 1, localDoc := None,
                                 observed := observed w @ [None]\<rparr>)
            | Some m \<Rightarrow> (Throw (JsError m),
                         w\<lparr>active := False, state := None,
                           idbRequests := (if hasIndexedDB w then idbRequests w + 1
                                           else idbRequests w),
                           localRequests := localRequests w + 1\<rparr>)))"
  by (auto simp: clearSavedState_def storageClear_def idbClear_def localStoreClear_def
        idbAnswers_def split: option.splits)

lemma setState_no_job: "state w = None \<Longrightarrow> setState mutator w = (Ok (), w)"
  by (simp add: setState_def)

lemma afterFetch_no_job: "state w = None \<Longrightarrow> snd (afterFetch interval a w) = w"
  by (auto simp: afterFetch_def onIntervalSuccess_def onFetchError_def setState_no_job
           split: sum.splits)

lemma executeInterval_no_job:
  "state w = None \<Longrightarrow> executeInterval interval script w = (Returned, script, w)"
  by (simp add: executeInterval.simps)

text \<open>
  Claim C9, as stated: after \<open>clearSavedState()\<close> has completed, \<open>get()\<close> on the durable store
  gives none. The clear empties only the tier that answers it. With the job in IndexedDB and
  an IndexedDB whose delete request rejects, the clear falls through to \<open>localStorage\<close> and
  completes; the \<open>get()\<close> that follows is answered by IndexedDB, with the cleared job.
\<close>

theorem cleared_job_read_back_counterexample:
  "fst (clearSavedState hiccupWorld) = Ok ()
     \<and> getState (snd (clearSavedState hiccupWorld)) = None
     \<and> fst (storageGet (snd (clearSavedState hiccupWorld))) = Ok (Some sampleJob)"
  by (simp add: clearSavedState_eq hiccupWorld_def runningWorld_def freshWorld_def idbAnswers_def
        getState_def storageGet_def idbGet_def)

text \<open>
  Claim C9, amended. Once \<open>clearSavedState()\<close> has completed, the job in memory is gone
  (\<open>getState()\<close> gives none), the observer has been called with none, and whatever the runner
  still attempts while there is no job changes nothing: \<open>setState\<close> with any mutator,
  \<open>updateSettings\<close>, the transitions after a fetch that was under way, a further pass of
  \<open>executeInterval\<close> and \<open>run\<close> all leave the world (memory, both tiers, the calls to the
  observer) as it is. A \<open>get()\<close> on the durable store that follows gives none when it is
  answered by the tier that answered the clear, or when the other tier held no snapshot.
\<close>

theorem clearSavedState_discards:
  assumes "clearSavedState w = (Ok (), w')"
  shows "getState w' = None
       \<and> observed w' = observed w @ [None]
       \<and> \<not> active w'
       \<and> (\<forall>mutator. setState mutator w' = (Ok (), w'))
       \<and> (\<forall>p a t. updateSettings p a t w' = (Ok (), w'))
       \<and> (\<forall>interval candles. onIntervalSuccess interval candles w' = (Ok (), w'))
       \<and> (\<forall>interval n ms msg. onIntervalRetry interval n ms msg w' = (Ok (), w'))
       \<and> (\<forall>interval a. snd (afterFetch interval a w') = w')
       \<and> (\<forall>interval script. executeInterval interval script w' = (Returned, script, w'))
       \<and> (\<forall>script. run script w' = (Returned, script, w'))
       \<and> (idbAnswers w' = idbAnswers w
            \<or> (if idbAnswers w then localDoc w = None else idbDoc w = None)
           \<longrightarrow> (\<forall>doc w''. storageGet w' = (Ok doc, w'') \<longrightarrow> doc = None))"
proof -
  from assms have st: "state w' = None"
    by (auto simp: clearSavedState_eq split: if_splits option.splits)
  from assms have obs: "observed w' = observed w @ [None]" and act: "\<not> active w'"
    by (auto simp: clearSavedState_eq split: if_splits option.splits)
  from assms have get: "idbAnswers w' = idbAnswers w
            \<or> (if idbAnswers w then localDoc w = None else idbDoc w = None)
           \<longrightarrow> (\<forall>doc w''. storageGet w' = (Ok doc, w'') \<longrightarrow> doc = None)"
    by (auto simp: clearSavedState_eq storageGet_def idbGet_def localStoreGet_def idbAnswers_def
             split: if_splits option.splits)
  from st have a: "\<forall>mutator. setState mutator w' = (Ok (), w')"
    by (simp add: setState_no_job)
  from st have b: "\<forall>p a t. updateSettings p a t w' = (Ok (), w')"
    by (simp add: updateSettings_def)
  from st have c: "\<forall>interval candles. onIntervalSuccess interval candles w' = (Ok (), w')"
    by (simp add: onIntervalSuccess_def setState_no_job)
  from st have d: "\<forall>interval n ms msg. onIntervalRetry interval n ms msg w' = (Ok (), w')"
    by (simp add: onIntervalRetry_def setState_no_job Let_def)
  from st have e: "\<forall>interval a. snd (afterFetch interval a w') = w'"
    by (simp add: afterFetch_no_job)
  from st have f: "\<forall>interval script. executeInterval interval script w' = (Returned, script, w')"
    by (simp add: executeInterval_no_job)
  from st have g: "\<forall>script. run script w' = (Returned, script, w')"
    by (simp add: run_def)
  from st obs act get a b c d e f g show ?thesis by (simp add: getState_def)
qed

theorem clearSavedState_discards_witness:
  "fst (clearSavedState runningWorld) = Ok ()
     \<and> idbAnswers runningWorld \<and> idbAnswers (snd (clearSavedState runningWorld))
     \<and> getState (snd (clearSavedState runningWorld)) = None
     \<and> fst (storageGet (snd (clearSavedState runningWorld))) = Ok None
     \<and> observed (snd (clearSavedState runningWorld)) = [Some sampleJob, None]
     \<and> setState (markRunning I5m 7) (snd (clearSavedState runningWorld))
         = (Ok (), snd (clearSavedState runningWorld))"
proof -
  have f: "fst (clearSavedState runningWorld) = Ok ()"
    by (simp add: clearSavedState_eq runningWorld_def freshWorld_def idbAnswers_def)
  then have 1: "clearSavedState runningWorld = (Ok (), snd (clearSavedState runningWorld))"
    by (metis prod.collapse)
  have 2: "observed runningWorld = [Some sampleJob]"
    by (simp add: runningWorld_def freshWorld_def)
  have 3: "idbAnswers runningWorld" "idbAnswers (snd (clearSavedState runningWorld))"
    by (simp_all add: clearSavedState_eq runningWorld_def freshWorld_def idbAnswers_def)
  have 4: "\<exists>doc w''. storageGet (snd (clearSavedState runningWorld)) = (Ok doc, w'')"
    by (simp add: clearSavedState_eq runningWorld_def freshWorld_def idbAnswers_def
          storageGet_def idbGet_def)
  note T = clearSavedState_discards [OF 1]
  from T have a: "getState (snd (clearSavedState runningWorld)) = None" by blast
  from T 3 have "\<forall>doc w''. storageGet (snd (clearSavedState runningWorld)) = (Ok doc, w'')
      \<longrightarrow> doc = None" by blast
  with 4 have b: "fst (storageGet (snd (clearSavedState runningWorld))) = Ok None" by auto
  from T have "observed (snd (clearSavedState runningWorld)) = observed runningWorld @ [None]"
    by blast
  with 2 have c: "observed (snd (clearSavedState runningWorld)) = [Some sampleJob, None]"
    by simp
  from T have d: "setState (markRunning I5m 7) (snd (clearSavedState runningWorld))
         = (Ok (), snd (clearSavedState runningWorld))" by blast
  from f 3 a b c d show ?thesis by blast
qed

section \<open>A successful fetch\<close>

lemma setState_taken:
  assumes "writeTaken w" and "state w = Some prev"
  shows "\<exists>w'. setState f w = (Ok (), w') \<and> state w' = Some (f prev)
           \<and> observed w' = observed w @ [Some (f prev)]
           \<and> nowMs w' = nowMs w \<and> fetchCalls w' = fetchCalls w \<and> active w' = active w
           \<and> loopsEntered w' = loopsEntered w"
  using assms
  by (auto simp: setState_def persistAndEmit_eq writeTaken_def idbAnswers_def split: option.splits)

lemma beginAttempt_unfold:
  "beginAttempt interval task w =
     setState (markRunning interval
                 (nowMs (if status task = Retrying \<and> retryAtMs task \<noteq> None
                            \<and> the (retryAtMs task) \<noteq> 0 \<and> the (retryAtMs task) > nowMs w
                         then delay (jsSub (the (retryAtMs task)) (nowMs w)) w else w)))
       (if status task = Retrying \<and> retryAtMs task \<noteq> None
           \<and> the (retryAtMs task) \<noteq> 0 \<and> the (retryAtMs task) > nowMs w
        then delay (jsSub (the (retryAtMs task)) (nowMs w)) w else w)"
  by (simp only: beginAttempt_def Let_def)

lemma beginAttempt_taken:
  assumes "writeTaken w" and "state w = Some st"
  shows "\<exists>w1. beginAttempt interval task w = (Ok (), w1)
           \<and> state w1 = Some (markRunning interval (nowMs w1) st)
           \<and> observed w1 = observed w @ [Some (markRunning interval (nowMs w1) st)]
           \<and> fetchCalls w1 = fetchCalls w \<and> active w1 = active w
           \<and> loopsEntered w1 = loopsEntered w"
proof -
  define w0 where "w0 = (if status task = Retrying \<and> retryAtMs task \<noteq> None
                   \<and> the (retryAtMs task) \<noteq> 0 \<and> the (retryAtMs task) > nowMs w
                then delay (jsSub (the (retryAtMs task)) (nowMs w)) w else w)"
  from assms have "writeTaken w0" "state w0 = Some st" "observed w0 = observed w"
      "fetchCalls w0 = fetchCalls w" "active w0 = active w" "loopsEntered w0 = loopsEntered w"
    by (simp_all add: w0_def delay_def writeTaken_def)
  with setState_taken [of w0 st "markRunning interval (nowMs w0)"]
  obtain w1 where "setState (markRunning interval (nowMs w0)) w0 = (Ok (), w1)"
      "state w1 = Some (markRunning interval (nowMs w0) st)"
      "observed w1 = observed w @ [Some (markRunning interval (nowMs w0) st)]"
      "nowMs w1 = nowMs w0" "fetchCalls w1 = fetchCalls w" "active w1 = active w"
      "loopsEntered w1 = loopsEntered w"
    by auto
  moreover have "beginAttempt interval task w = setState (markRunning interval (nowMs w0)) w0"
    by (simp only: beginAttempt_unfold w0_def)
  ultimately show ?thesis by simp
qed

lemma afterFetch_success:
  assumes "state w = Some st" and "writeTaken w" and "fetched a = Inr candles"
  shows "\<exists>w' st'. afterFetch interval a w = (Return, w')
           \<and> state w' = Some st' \<and> last (observed w') = Some st'
           \<and> tasks st' interval = (tasks st interval)
                \<lparr>status := Done, count := Some (length candles), retryAtMs := None,
                 errorMessage := (if length candles < 1000
                                  then Some ''Returned fewer than 1000 candles'' else None)\<rparr>
           \<and> data st' interval = Some candles
           \<and> fetchCalls w' = fetchCalls w"
proof -
  from setState_taken [OF assms(2,1), of "markDone interval candles (nowMs w)"]
  obtain w' where w': "setState (markDone interval candles (nowMs w)) w = (Ok (), w')"
      "state w' = Some (markDone interval candles (nowMs w) st)"
      "observed w' = observed w @ [Some (markDone interval candles (nowMs w) st)]"
      "fetchCalls w' = fetchCalls w"
    by blast
  from w'(1) assms(3) have 1: "afterFetch interval a w = (Return, w')"
    by (simp add: afterFetch_def onIntervalSuccess_def)
  have 2: "tasks (markDone interval candles (nowMs w) st) interval = (tasks st interval)
                \<lparr>status := Done, count := Some (length candles), retryAtMs := None,
                 errorMessage := (if length candles < 1000
                                  then Some ''Returned fewer than 1000 candles'' else None)\<rparr>"
    by (simp add: markDone_def withLog_def Let_def)
  have 3: "data (markDone interval candles (nowMs w) st) interval = Some candles"
    by (simp add: markDone_def withLog_def Let_def)
  from w'(3) have 4: "last (observed w') = Some (markDone interval candles (nowMs w) st)"
    by simp
  from 1 2 3 4 w'(2,4) show ?thesis by blast
qed

lemma executeInterval_success:
  assumes "state w = Some st"
    and "\<not> isFinishedStatus (status (tasks st interval))"
    and "writeTaken w"
    and "writeTaken (snd (beginAttempt interval (tasks st interval) w))"
    and "fetched a = Inr candles"
  shows "\<exists>w' st'. executeInterval interval (a # rest) w = (Returned, rest, w')
           \<and> state w' = Some st' \<and> last (observed w') = Some st'
           \<and> tasks st' interval = (tasks st interval)
                \<lparr>status := Done, count := Some (length candles), retryAtMs := None,
                 errorMessage := (if length candles < 1000
                                  then Some ''Returned fewer than 1000 candles'' else None)\<rparr>
           \<and> data st' interval = Some candles
           \<and> fetchCalls w' = fetchCalls w @ [(symbol st, interval, proxyBaseUrl st)]"
proof -
  from beginAttempt_taken [OF assms(3,1), of interval "tasks st interval"]
  obtain w1 where w1: "beginAttempt interval (tasks st interval) w = (Ok (), w1)"
      "state w1 = Some (markRunning interval (nowMs w1) st)"
      "fetchCalls w1 = fetchCalls w"
    by blast
  define st1 where "st1 = markRunning interval (nowMs w1) st"
  define w2 where "w2 = w1\<lparr>fetchCalls := fetchCalls w1 @ [(symbol st1, interval, proxyBaseUrl st1)]\<rparr>"
  from w1 assms(4) have w2: "writeTaken w2" "state w2 = Some st1"
    by (simp_all add: w2_def st1_def writeTaken_def)
  from setState_taken [OF w2, of "markDone interval candles (nowMs w2)"]
  obtain w3 where w3: "setState (markDone interval candles (nowMs w2)) w2 = (Ok (), w3)"
      "state w3 = Some (markDone interval candles (nowMs w2) st1)"
      "observed w3 = observed w2 @ [Some (markDone interval candles (nowMs w2) st1)]"
      "fetchCalls w3 = fetchCalls w2"
    by blast
  from w3(1) assms(5) have af: "afterFetch interval a w2 = (Return, w3)"
    by (simp add: afterFetch_def onIntervalSuccess_def)
  from assms(1,2) w1(1,2) af
  have 1: "executeInterval interval (a # rest) w = (Returned, rest, w3)"
    by (simp add: executeInterval.simps [of interval "a # rest" w] isFinishedStatus_def
          st1_def [symmetric] w2_def [symmetric] Let_def)
  have 2: "tasks (markDone interval candles (nowMs w2) st1) interval = (tasks st interval)
                \<lparr>status := Done, count := Some (length candles), retryAtMs := None,
                 errorMessage := (if length candles < 1000
                                  then Some ''Returned fewer than 1000 candles'' else None)\<rparr>"
    by (simp add: markDone_def withLog_def Let_def st1_def markRunning_def)
  have 3: "data (markDone interval candles (nowMs w2) st1) interval = Some candles"
    by (simp add: markDone_def withLog_def Let_def)
  have 4: "fetchCalls w3 = fetchCalls w @ [(symbol st, interval, proxyBaseUrl st)]"
    using w3(4) w1(3) by (simp add: w2_def st1_def markRunning_def)
  from w3(3) have 5: "last (observed w3) = Some (markDone interval candles (nowMs w2) st1)"
    by simp
  from 1 2 3 4 5 w3(2) show ?thesis by blast
qed

lemmas run_defs =
  executeInterval.simps beginAttempt_def setState_def persistAndEmit_eq idbAnswers_def
  afterFetch_def onIntervalSuccess_def onFetchError_def isRetryable_def thrownMessage_def
  markRunning_def markDone_def markError_def withLog_def initialTaskState_def Let_def

text \<open>
  Claim C6, as stated: every successful fetch of a short batch leaves the series \<open>done\<close>, not
  \<open>error\<close>. The \<open>done\<close> snapshot is written inside the \<open>try\<close> block of the pass. On a profile
  without IndexedDB whose \<open>localStorage\<close> took the \<open>running\<close> snapshot and is full for the next
  ones, a fetch that returns 500 records ends in the \<open>catch\<close> clause: the pass throws the
  storage error and the series is \<open>error\<close> in memory, with the storage message.
\<close>

theorem short_batch_write_refused_counterexample:
  "fetched (batchAnswer 500) = Inr (replicate 500 sampleRow)
     \<and> length (replicate 500 sampleRow) < 1000
     \<and> fst (executeInterval I1m [batchAnswer 500] quotaWorld) = Threw (JsError ''QuotaExceededError'')
     \<and> map_option (\<lambda>st. (status (tasks st I1m), errorMessage (tasks st I1m)))
          (state (snd (snd (executeInterval I1m [batchAnswer 500] quotaWorld))))
         = Some (Error, Some ''QuotaExceededError'')"
  by (simp add: quotaWorld_def jobWorld_def freshWorld_def sampleJob_def batchAnswer_def run_defs)

text \<open>
  Claim C6, amended. When the fetch of a series settles with a batch of fewer than 1000
  records while a job is in memory, and a storage tier takes the \<open>done\<close> snapshot, the pass
  stands at \<open>return\<close> with the series \<open>done\<close>, its count the length of the batch, the batch in
  the data map, the advisory message on the task and the attempt counter as before. And a
  pass of \<open>executeInterval\<close> over a series that is not finished, whose \<open>running\<close> and \<open>done\<close>
  snapshots are both taken and which no other operation of the runner cuts across, returns
  after that one fetch with the series \<open>done\<close>: nothing is retried, and the answers that
  follow in the script are left untouched.
\<close>

theorem short_batch_is_done:
  assumes "fetched a = Inr candles" and "length candles < 1000"
  shows "(\<forall>w st. state w = Some st \<and> writeTaken w \<longrightarrow>
            (\<exists>w' st'. afterFetch interval a w = (Return, w')
               \<and> state w' = Some st'
               \<and> status (tasks st' interval) = Done
               \<and> count (tasks st' interval) = Some (length candles)
               \<and> data st' interval = Some candles
               \<and> errorMessage (tasks st' interval) = Some ''Returned fewer than 1000 candles''
               \<and> attempts (tasks st' interval) = attempts (tasks st interval)))
       \<and> (\<forall>w st rest. state w = Some st
               \<and> \<not> isFinishedStatus (status (tasks st interval))
               \<and> writeTaken w
               \<and> writeTaken (snd (beginAttempt interval (tasks st interval) w)) \<longrightarrow>
            (\<exists>w' st'. executeInterval interval (a # rest) w = (Returned, rest, w')
               \<and> state w' = Some st'
               \<and> status (tasks st' interval) = Done
               \<and> count (tasks st' interval) = Some (length candles)
               \<and> data st' interval = Some candles
               \<and> errorMessage (tasks st' interval) = Some ''Returned fewer than 1000 candles''
               \<and> attempts (tasks st' interval) = attempts (tasks st interval)
               \<and> fetchCalls w' = fetchCalls w @ [(symbol st, interval, proxyBaseUrl st)]))"
proof -
  have settle: "\<exists>w' st'. afterFetch interval a w = (Return, w')
               \<and> state w' = Some st'
               \<and> status (tasks st' interval) = Done
               \<and> count (tasks st' interval) = Some (length candles)
               \<and> data st' interval = Some candles
               \<and> errorMessage (tasks st' interval) = Some ''Returned fewer than 1000 candles''
               \<and> attempts (tasks st' interval) = attempts (tasks st interval)"
    if h: "state w = Some st" "writeTaken w" for w st
  proof -
    from afterFetch_success [OF h assms(1), of interval]
    obtain w' st' where r: "afterFetch interval a w = (Return, w')" "state w' = Some st'"
        "tasks st' interval = (tasks st interval)
                \<lparr>status := Done, count := Some (length candles), retryAtMs := None,
                 errorMessage := (if length candles < 1000
                                  then Some ''Returned fewer than 1000 candles'' else None)\<rparr>"
        "data st' interval = Some candles"
      by blast
    from r(3) assms(2) have "status (tasks st' interval) = Done"
        "count (tasks st' interval) = Some (length candles)"
        "errorMessage (tasks st' interval) = Some ''Returned fewer than 1000 candles''"
        "attempts (tasks st' interval) = attempts (tasks st interval)"
      by simp_all
    with r show ?thesis by blast
  qed
  have pass: "\<exists>w' st'. executeInterval interval (a # rest) w = (Returned, rest, w')
               \<and> state w' = Some st'
               \<and> status (tasks st' interval) = Done
               \<and> count (tasks st' interval) = Some (length candles)
               \<and> data st' interval = Some candles
               \<and> errorMessage (tasks st' interval) = Some ''Returned fewer than 1000 candles''
               \<and> attempts (tasks st' interval) = attempts (tasks st interval)
               \<and> fetchCalls w' = fetchCalls w @ [(symbol st, interval, proxyBaseUrl st)]"
    if h: "state w = Some st" "\<not> isFinishedStatus (status (tasks st interval))"
      "writeTaken w" "writeTaken (snd (beginAttempt interval (tasks st interval) w))"
    for w st rest
  proof -
    from executeInterval_success [OF h assms(1), of rest]
    obtain w' st' where r: "executeInterval interval (a # rest) w = (Returned, rest, w')"
        "state w' = Some st'"
        "tasks st' interval = (tasks st interval)
                \<lparr>status := Done, count := Some (length candles), retryAtMs := None,
                 errorMessage := (if length candles < 1000
                                  then Some ''Returned fewer than 1000 candles'' else None)\<rparr>"
        "data st' interval = Some candles"
        "fetchCalls w' = fetchCalls w @ [(symbol st, interval, proxyBaseUrl st)]"
      by blast
    from r(3) assms(2) have "status (tasks st' interval) = Done"
        "count (tasks st' interval) = Some (length candles)"
        "errorMessage (tasks st' interval) = Some ''Returned fewer than 1000 candles''"
        "attempts (tasks st' interval) = attempts (tasks st interval)"
      by simp_all
    with r show ?thesis by blast
  qed
  from settle pass show ?thesis by blast
qed

lemma jobWorld_writes:
  "state jobWorld = Some sampleJob" "\<not> isFinishedStatus (status (tasks sampleJob I1m))"
  "writeTaken jobWorld" "writeTaken (snd (beginAttempt I1m (tasks sampleJob I1m) jobWorld))"
  by (simp_all add: jobWorld_def freshWorld_def sampleJob_def isFinishedStatus_def
        initialTaskState_def writeTaken_def beginAttempt_def setState_def persistAndEmit_eq
        idbAnswers_def Let_def)

lemma fetchingWorld_writes:
  "state fetchingWorld = Some (markRunning I1m 0 sampleJob)" "writeTaken fetchingWorld"
  "fetchCalls fetchingWorld = [(''BTCUSDT'', I1m, [])]"
  by (simp_all add: fetchingWorld_def jobWorld_def freshWorld_def sampleJob_def writeTaken_def
        run_defs)

theorem short_batch_is_done_witness:
  "fetched (batchAnswer 500) = Inr (replicate 500 sampleRow)
     \<and> length (replicate 500 sampleRow) < 1000
     \<and> state fetchingWorld = Some (markRunning I1m 0 sampleJob) \<and> writeTaken fetchingWorld
     \<and> (\<exists>w' st'. afterFetch I1m (batchAnswer 500) fetchingWorld = (Return, w')
           \<and> state w' = Some st' \<and> status (tasks st' I1m) = Done
           \<and> count (tasks st' I1m) = Some 500
           \<and> errorMessage (tasks st' I1m) = Some ''Returned fewer than 1000 candles''
           \<and> attempts (tasks st' I1m) = 0)
     \<and> state jobWorld = Some sampleJob
     \<and> \<not> isFinishedStatus (status (tasks sampleJob I1m))
     \<and> writeTaken jobWorld \<and> writeTaken (snd (beginAttempt I1m (tasks sampleJob I1m) jobWorld))
     \<and> (\<exists>w' st'. executeInterval I1m [batchAnswer 500, batchAnswer 7] jobWorld
                     = (Returned, [batchAnswer 7], w')
           \<and> state w' = Some st'
           \<and> status (tasks st' I1m) = Done
           \<and> count (tasks st' I1m) = Some 500
           \<and> errorMessage (tasks st' I1m) = Some ''Returned fewer than 1000 candles''
           \<and> attempts (tasks st' I1m) = 0
           \<and> fetchCalls w' = [(''BTCUSDT'', I1m, [])])"
proof -
  have h: "fetched (batchAnswer 500) = Inr (replicate 500 sampleRow)"
      "length (replicate 500 sampleRow) < 1000"
    by (simp_all add: batchAnswer_def)
  have e: "attempts (tasks sampleJob I1m) = 0" "fetchCalls jobWorld = []"
      "symbol sampleJob = ''BTCUSDT''" "proxyBaseUrl sampleJob = []"
      "attempts (tasks (markRunning I1m 0 sampleJob) I1m) = 0"
    by (simp_all add: jobWorld_def freshWorld_def sampleJob_def initialTaskState_def
          markRunning_def)
  note T = short_batch_is_done [OF h, of I1m]
  from T fetchingWorld_writes(1,2)
  have "\<exists>w' st'. afterFetch I1m (batchAnswer 500) fetchingWorld = (Return, w')
           \<and> state w' = Some st' \<and> status (tasks st' I1m) = Done
           \<and> count (tasks st' I1m) = Some (length (replicate 500 sampleRow))
           \<and> data st' I1m = Some (replicate 500 sampleRow)
           \<and> errorMessage (tasks st' I1m) = Some ''Returned fewer than 1000 candles''
           \<and> attempts (tasks st' I1m) = attempts (tasks (markRunning I1m 0 sampleJob) I1m)"
    by blast
  with e have 1: "\<exists>w' st'. afterFetch I1m (batchAnswer 500) fetchingWorld = (Return, w')
           \<and> state w' = Some st' \<and> status (tasks st' I1m) = Done
           \<and> count (tasks st' I1m) = Some 500
           \<and> errorMessage (tasks st' I1m) = Some ''Returned fewer than 1000 candles''
           \<and> attempts (tasks st' I1m) = 0"
    by auto
  from T jobWorld_writes
  have "\<exists>w' st'. executeInterval I1m [batchAnswer 500, batchAnswer 7] jobWorld
                     = (Returned, [batchAnswer 7], w')
           \<and> state w' = Some st'
           \<and> status (tasks st' I1m) = Done
           \<and> count (tasks st' I1m) = Some (length (replicate 500 sampleRow))
           \<and> data st' I1m = Some (replicate 500 sampleRow)
           \<and> errorMessage (tasks st' I1m) = Some ''Returned fewer than 1000 candles''
           \<and> attempts (tasks st' I1m) = attempts (tasks sampleJob I1m)
           \<and> fetchCalls w' = fetchCalls jobWorld
                 @ [(symbol sampleJob, I1m, proxyBaseUrl sampleJob)]"
    by blast
  with e have 2: "\<exists>w' st'. executeInterval I1m [batchAnswer 500, batchAnswer 7] jobWorld
                     = (Returned, [batchAnswer 7], w')
           \<and> state w' = Some st'
           \<and> status (tasks st' I1m) = Done
           \<and> count (tasks st' I1m) = Some 500
           \<and> errorMessage (tasks st' I1m) = Some ''Returned fewer than 1000 candles''
           \<and> attempts (tasks st' I1m) = 0
           \<and> fetchCalls w' = [(''BTCUSDT'', I1m, [])]"
    by auto
  from h fetchingWorld_writes(1,2) jobWorld_writes 1 2 show ?thesis by blast
qed

text \<open>
  Claim C10, as stated: for every successful fetch of fewer than 1000 records the advisory is
  in \<open>errorMessage\<close> while the status is \<open>done\<close>. With an IndexedDB that rejects the write of
  the \<open>done\<close> snapshot and a full \<open>localStorage\<close>, a fetch that returns 3 records ends in the
  \<open>catch\<close> clause; the \<open>error\<close> snapshot is then taken by IndexedDB and handed to the observer:
  status \<open>error\<close>, \<open>errorMessage\<close> the storage message.
\<close>

theorem advisory_write_refused_counterexample:
  "fetched (batchAnswer 3) = Inr (replicate 3 sampleRow)
     \<and> fst (executeInterval I1m [batchAnswer 3] flakyWorld) = Returned
     \<and> map_option (map_option (\<lambda>st. (status (tasks st I1m), errorMessage (tasks st I1m))))
          (Some (last (observed (snd (snd (executeInterval I1m [batchAnswer 3] flakyWorld))))))
         = Some (Some (Error, Some ''QuotaExceededError''))"
  by (simp add: flakyWorld_def jobWorld_def freshWorld_def sampleJob_def batchAnswer_def run_defs)

text \<open>
  Claim C10, amended. When a fetch settles with its batch while a job is in memory, and a
  storage tier takes the \<open>done\<close> snapshot, the series is \<open>done\<close> in the snapshot that
  \<open>getState()\<close> gives and that the observer receives, and the advisory text sits in the
  task's \<open>errorMessage\<close>: a batch of fewer than 1000 records leaves
  \<open>errorMessage = "Returned fewer than 1000 candles"\<close> on a \<open>done\<close> series, so a message that
  is present does not mean the series failed; on that \<open>done\<close> series the message is absent
  exactly when the batch had 1000 records or more.
\<close>

theorem done_series_advisory:
  assumes "state w = Some st" and "writeTaken w" and "fetched a = Inr candles"
  shows "\<exists>w' st'. afterFetch interval a w = (Return, w')
           \<and> getState w' = Some st' \<and> last (observed w') = Some st'
           \<and> status (tasks st' interval) = Done
           \<and> (length candles < 1000 \<longrightarrow>
                 errorMessage (tasks st' interval) = Some ''Returned fewer than 1000 candles'')
           \<and> (errorMessage (tasks st' interval) = None \<longleftrightarrow> 1000 \<le> length candles)"
proof -
  from afterFetch_success [OF assms, of interval]
  obtain w' st' where r: "afterFetch interval a w = (Return, w')"
      "state w' = Some st'" "last (observed w') = Some st'"
      "tasks st' interval = (tasks st interval)
                \<lparr>status := Done, count := Some (length candles), retryAtMs := None,
                 errorMessage := (if length candles < 1000
                                  then Some ''Returned fewer than 1000 candles'' else None)\<rparr>"
    by blast
  from r(4) have "status (tasks st' interval) = Done"
      "length candles < 1000 \<longrightarrow>
         errorMessage (tasks st' interval) = Some ''Returned fewer than 1000 candles''"
      "errorMessage (tasks st' interval) = None \<longleftrightarrow> 1000 \<le> length candles"
    by auto
  with r(1-3) show ?thesis by (auto simp: getState_def)
qed

theorem done_series_advisory_witness:
  "state fetchingWorld = Some (markRunning I1m 0 sampleJob) \<and> writeTaken fetchingWorld
     \<and> fetched (batchAnswer 500) = Inr (replicate 500 sampleRow)
     \<and> fetched (batchAnswer 1000) = Inr (replicate 1000 sampleRow)
     \<and> (\<exists>w' st'. afterFetch I1m (batchAnswer 500) fetchingWorld = (Return, w')
           \<and> last (observed w') = Some st' \<and> status (tasks st' I1m) = Done
           \<and> errorMessage (tasks st' I1m) = Some ''Returned fewer than 1000 candles'')
     \<and> (\<exists>w' st'. afterFetch I1m (batchAnswer 1000) fetchingWorld = (Return, w')
           \<and> last (observed w') = Some st' \<and> status (tasks st' I1m) = Done
           \<and> errorMessage (tasks st' I1m) = None)"
proof -
  have a: "fetched (batchAnswer 500) = Inr (replicate 500 sampleRow)"
    and b: "fetched (batchAnswer 1000) = Inr (replicate 1000 sampleRow)"
    by (simp_all add: batchAnswer_def)
  from done_series_advisory [OF fetchingWorld_writes(1,2) a, of I1m]
  have 1: "\<exists>w' st'. afterFetch I1m (batchAnswer 500) fetchingWorld = (Return, w')
           \<and> last (observed w') = Some st' \<and> status (tasks st' I1m) = Done
           \<and> errorMessage (tasks st' I1m) = Some ''Returned fewer than 1000 candles''"
    by auto
  from done_series_advisory [OF fetchingWorld_writes(1,2) b, of I1m]
  have 2: "\<exists>w' st'. afterFetch I1m (batchAnswer 1000) fetchingWorld = (Return, w')
           \<and> last (observed w') = Some st' \<and> status (tasks st' I1m) = Done
           \<and> errorMessage (tasks st' I1m) = None"
    by auto
  from fetchingWorld_writes(1,2) a b 1 2 show ?thesis by blast
qed

section \<open>Resuming and the run loop\<close>



























section \<open>The retry timestamp under two loops\<close>

lemmas scenario_defs =
  savedWorld_def freshWorld_def sampleJob_def resumeIfNeeded_def loadSavedState_def
  storageGet_def idbGet_def storageClear_def idbClear_def clearSavedState_def startNewJob_def
  run_def INTERVALS_def isFinishedStatus_def orDefault_def computeRetryDelayMs_def
  MAX_BACKOFF_MS_def onIntervalRetry_def markRetrying_def jsAdd_def roundDouble_5000

lemma resumedWorld_eq:
  "resumeIfNeeded ''UTC'' [] savedWorld = (Awaiting, [], resumedWorld)"
  by (simp add: resumedWorld_def scenario_defs run_defs)

text \<open>The transition to \<open>error\<close> leaves \<open>retryAtMs\<close> as it finds it; the transitions to
  \<open>running\<close> and \<open>done\<close> clear it.\<close>

lemma markError_keeps_retryAtMs:
  "status (tasks (markError interval msg now st) interval) = Error
     \<and> retryAtMs (tasks (markError interval msg now st) interval) = retryAtMs (tasks st interval)"
  by (simp add: markError_def withLog_def Let_def)

lemma markRunning_markDone_clear_retryAtMs:
  "retryAtMs (tasks (markRunning interval now st) interval) = None
     \<and> retryAtMs (tasks (markDone interval candles now st) interval) = None"
  by (simp add: markRunning_def markDone_def withLog_def Let_def)

text \<open>
  Claim C8 fails in the code. In \<open>failedWorld\<close> the first series of the new job has status
  \<open>error\<close> and \<open>retryAtMs\<close> is still set: the transition to \<open>error\<close> (the last \<open>setState\<close> of
  \<open>executeInterval\<close>) writes \<open>status\<close> and \<open>errorMessage\<close> only, on a task that the other
  loop had set to \<open>retrying\<close>. The snapshot is in memory, in the store and handed to the
  observer.
\<close>

theorem error_keeps_retryAtMs:
  "fst (resumeIfNeeded ''UTC'' [] savedWorld) = Awaiting
     \<and> fst (clearSavedState resumedWorld) = Ok ()
     \<and> fst (startNewJob ''UTC'' ''job-2'' ''ETHUSDT'' [] True None [] clearedWorld) = Awaiting
     \<and> fst (afterFetch I1m throttled restartedWorld) = Sleep 5000
     \<and> taskView I1m (state throttledWorld) = Some (''job-2'', Retrying, Some 5000)
     \<and> fst (afterFetch I1m forbidden throttledWorld) = Return
     \<and> taskView I1m (state failedWorld) = Some (''job-2'', Error, Some 5000)
     \<and> taskView I1m (idbDoc failedWorld) = Some (''job-2'', Error, Some 5000)
     \<and> taskView I1m (last (observed failedWorld)) = Some (''job-2'', Error, Some 5000)"
  by (simp add: failedWorld_def throttledWorld_def restartedWorld_def clearedWorld_def
        resumedWorld_def throttled_def forbidden_def taskView_def scenario_defs run_defs)

end
